theory Spec2Isabelle
  imports Complex_Main "HOL-Library.Word"
begin

unbundle bit_operations_syntax

section \<open>Numbers, errors and bytes\<close>

text \<open>
  The scripts compute with Python floats and numpy arrays. Floats are modelled by the real
  numbers, over which the specification states its properties; the one non-number a script
  can produce,
  numpy's NaN from \<open>0.0 / 0.0\<close>, is a value of its own (\<open>npfloat\<close>, further down).
  Python's unbounded integers are \<open>int\<close>, sizes and loop counters are \<open>nat\<close>, and the
  elements of a \<open>uint8\<close> array are \<open>8 word\<close>. Every exception a modelled function can
  raise is a value of \<open>py_error\<close>, returned on the left of a sum.
\<close>

datatype py_error = KeyError | ValueError | ZeroDivisionError | StructError

type_synonym byte = "8 word"

text \<open>\<open>int(r)\<close> on a float: truncation towards zero.\<close>

definition py_int :: "real \<Rightarrow> int" where
  "py_int r = (if 0 \<le> r then \<lfloor>r\<rfloor> else \<lceil>r\<rceil>)"

text \<open>\<open>np.clip(v, lo, hi)\<close> is \<open>minimum(maximum(v, lo), hi)\<close>.\<close>

definition clip :: "real \<Rightarrow> real \<Rightarrow> real \<Rightarrow> real" where
  "clip v lo hi = min (max v lo) hi"

text \<open>The float remainder \<open>a % b\<close> of Python and numpy: the result has the sign of \<open>b\<close>.\<close>

definition py_fmod :: "real \<Rightarrow> real \<Rightarrow> real" where
  "py_fmod a b = a - b * of_int \<lfloor>a / b\<rfloor>"

section \<open>generate_cloud_noise.py: the 3D noise primitives\<close>

definition hash_float :: "real \<Rightarrow> real" where
  "hash_float x = py_fmod \<bar>sin (x * 12.9898 + 78.233) * 43758.5453\<bar> 1.0"

definition perlin_noise_3d :: "real \<Rightarrow> real \<Rightarrow> real \<Rightarrow> real" where
  "perlin_noise_3d x y z =
    (let xi = \<lfloor>x\<rfloor> AND 255;
         yi = \<lfloor>y\<rfloor> AND 255;
         zi = \<lfloor>z\<rfloor> AND 255;
         xf = x - of_int \<lfloor>x\<rfloor>;
         yf = y - of_int \<lfloor>y\<rfloor>;
         zf = z - of_int \<lfloor>z\<rfloor>;
         u = xf * xf * (3.0 - 2.0 * xf);
         v = yf * yf * (3.0 - 2.0 * yf);
         w = zf * zf * (3.0 - 2.0 * zf);
         n000 = hash_float (of_int (xi + yi * 57 + zi * 113));
         n001 = hash_float (of_int (xi + yi * 57 + (zi + 1) * 113));
         n010 = hash_float (of_int (xi + (yi + 1) * 57 + zi * 113));
         n011 = hash_float (of_int (xi + (yi + 1) * 57 + (zi + 1) * 113));
         n100 = hash_float (of_int ((xi + 1) + yi * 57 + zi * 113));
         n101 = hash_float (of_int ((xi + 1) + yi * 57 + (zi + 1) * 113));
         n110 = hash_float (of_int ((xi + 1) + (yi + 1) * 57 + zi * 113));
         n111 = hash_float (of_int ((xi + 1) + (yi + 1) * 57 + (zi + 1) * 113));
         nx00 = n000 * (1 - u) + n100 * u;
         nx01 = n001 * (1 - u) + n101 * u;
         nx10 = n010 * (1 - u) + n110 * u;
         nx11 = n011 * (1 - u) + n111 * u;
         nxy0 = nx00 * (1 - v) + nx10 * v;
         nxy1 = nx01 * (1 - v) + nx11 * v
     in nxy0 * (1 - w) + nxy1 * w)"

text \<open>
  The body of the innermost loop of \<open>worley_noise_3d\<close>: the distance from the sample to
  the feature point of the neighbour cell at offset \<open>(dx, dy, dz)\<close>.
\<close>

definition feature_dist ::
  "real \<Rightarrow> real \<Rightarrow> real \<Rightarrow> real \<Rightarrow> real \<Rightarrow> real \<Rightarrow> real \<Rightarrow> real \<Rightarrow> real \<Rightarrow> real" where
  "feature_dist x y z cell_x cell_y cell_z dx dy dz =
    (let neighbor_x = cell_x + dx;
         neighbor_y = cell_y + dy;
         neighbor_z = cell_z + dz;
         hash_val = hash_float (neighbor_x * 374761393.0 + neighbor_y * 668265263.0
                                + neighbor_z * 1274126177.0);
         feature_x = hash_val;
         feature_y = hash_float (hash_val * 2.0);
         feature_z = hash_float (hash_val * 3.0);
         diff_x = (neighbor_x + feature_x) - x;
         diff_y = (neighbor_y + feature_y) - y;
         diff_z = (neighbor_z + feature_z) - z
     in sqrt (diff_x * diff_x + diff_y * diff_y + diff_z * diff_z))"

text \<open>
  The three nested loops over \<open>[-1, 0, 1]\<close>, with \<open>min_dist\<close> as the loop state. The
  variables \<open>frac_x\<close>, \<open>frac_y\<close> and \<open>frac_z\<close> of the script are never read.
\<close>

definition worley_noise_3d :: "real \<Rightarrow> real \<Rightarrow> real \<Rightarrow> real" where
  "worley_noise_3d x y z =
    (let cell_x = of_int \<lfloor>x\<rfloor>;
         cell_y = of_int \<lfloor>y\<rfloor>;
         cell_z = of_int \<lfloor>z\<rfloor>;
         min_dist =
           foldl (\<lambda>md dz.
             foldl (\<lambda>md dy.
               foldl (\<lambda>md dx. min md (feature_dist x y z cell_x cell_y cell_z dx dy dz))
                 md [-1, 0, 1])
               md [-1, 0, 1])
             1.0 [-1, 0, 1]
     in 1.0 - min_dist)"

section \<open>generate_cloud_noise.py: the volume and its file\<close>

text \<open>
  One iteration of the voxel loop of \<open>generate_3d_noise\<close>: the blend, the clipped blend
  and the value stored into the \<open>uint8\<close> array.
\<close>

definition voxel_blend :: "nat \<Rightarrow> nat \<Rightarrow> nat \<Rightarrow> nat \<Rightarrow> real" where
  "voxel_blend size' x y z =
    (let nx = real x / real size';
         ny = real y / real size';
         nz = real z / real size';
         perlin = perlin_noise_3d (nx * 4.0) (ny * 4.0) (nz * 4.0);
         worley = worley_noise_3d (nx * 2.0) (ny * 2.0) (nz * 2.0)
     in perlin * 0.6 + worley * 0.4)"

definition voxel_noise :: "nat \<Rightarrow> nat \<Rightarrow> nat \<Rightarrow> nat \<Rightarrow> real" where
  "voxel_noise size' x y z = clip (voxel_blend size' x y z) 0.0 1.0"

definition voxel_byte :: "nat \<Rightarrow> nat \<Rightarrow> nat \<Rightarrow> nat \<Rightarrow> byte" where
  "voxel_byte size' x y z = word_of_int (py_int (voxel_noise size' x y z * 255))"

text \<open>
  \<open>generate_3d_noise\<close>: the array \<open>noise_data[z, y, x]\<close> is a list of planes of rows.
  The progress report computes \<open>idx % progress_interval\<close> with
  \<open>progress_interval = total_voxels // 20\<close>, which raises on the first voxel when the
  volume has fewer than 20 voxels.
\<close>

definition generate_3d_noise :: "nat \<Rightarrow> py_error + byte list list list" where
  "generate_3d_noise size' =
    (let total_voxels = size' * size' * size';
         progress_interval = total_voxels div 20
     in if 0 < size' \<and> progress_interval = 0 then Inl ZeroDivisionError
        else Inr (map (\<lambda>z. map (\<lambda>y. map (\<lambda>x. voxel_byte size' x y z)
                    [0..<size']) [0..<size']) [0..<size']))"

text \<open>\<open>data.tobytes()\<close> of a C-ordered array: the last index varies fastest.\<close>

definition tobytes :: "byte list list list \<Rightarrow> byte list" where
  "tobytes data = concat (concat data)"

text \<open>
  \<open>struct.pack('I', n)\<close>: the format has no byte-order prefix, so the four bytes come in
  the byte order of the machine that runs the script (\<open>sys.byteorder\<close>), which is a
  parameter of the model; it raises \<open>struct.error\<close> outside \<open>0 .. 2^32 - 1\<close>.
\<close>

datatype byteorder = LittleEndian | BigEndian

definition pack_I :: "byteorder \<Rightarrow> nat \<Rightarrow> py_error + byte list" where
  "pack_I host n =
    (if n < 2 ^ 32
     then
       (let digits = [of_nat (n mod 256), of_nat (n div 256 mod 256),
                      of_nat (n div 65536 mod 256), of_nat (n div 16777216 mod 256)]
        in Inr (case host of LittleEndian \<Rightarrow> digits | BigEndian \<Rightarrow> rev digits))
     else Inl StructError)"

definition bytes_of_ascii :: "string \<Rightarrow> byte list" where
  "bytes_of_ascii s = map (\<lambda>c. of_nat (of_char c)) s"

text \<open>\<open>f.write(bs)\<close> on a file opened with \<open>'wb'\<close>: the file is the bytes written so far.\<close>

definition f_write :: "byte list \<Rightarrow> byte list \<Rightarrow> byte list" where
  "f_write f bs = f @ bs"

definition save_binary_texture :: "byteorder \<Rightarrow> byte list list list \<Rightarrow> py_error + byte list" where
  "save_binary_texture host data =
    (let size' = length data;
         f = f_write [] (bytes_of_ascii ''CN3D'')
     in case pack_I host size' of
          Inl e \<Rightarrow> Inl e
        | Inr packed \<Rightarrow> Inr (f_write (f_write f packed) (tobytes data)))"

text \<open>Reading four bytes back as a little-endian unsigned integer.\<close>

definition le32 :: "byte list \<Rightarrow> nat" where
  "le32 bs = unat (bs ! 0) + 256 * unat (bs ! 1) + 65536 * unat (bs ! 2)
             + 16777216 * unat (bs ! 3)"

text \<open>
  \<open>struct.unpack('I', bs)\<close> on a machine of the given byte order: the inverse of
  \<open>pack_I\<close> on that machine.
\<close>

definition unpack_I :: "byteorder \<Rightarrow> byte list \<Rightarrow> nat" where
  "unpack_I host bs = (case host of LittleEndian \<Rightarrow> le32 bs | BigEndian \<Rightarrow> le32 (rev bs))"

text \<open>A volume is a cube of side \<open>n\<close> when all three dimensions of the array are \<open>n\<close>.\<close>

definition is_cube :: "nat \<Rightarrow> byte list list list \<Rightarrow> bool" where
  "is_cube n data =
    (length data = n \<and> list_all (\<lambda>plane. length plane = n
       \<and> list_all (\<lambda>row. length row = n) plane) data)"

section \<open>generate_block_textures.py: the 2D multi-octave noise\<close>

text \<open>
  A numpy float is a real number or NaN. The only operation of the script that can make a
  NaN is the normalisation \<open>(noise - min) / (max - min)\<close> of a flat field, where every
  numerator is zero as well; numpy then warns and yields NaN. NaN propagates through
  arithmetic and compares false with everything.
\<close>

datatype npfloat = Fin real | NaN

definition np_div :: "real \<Rightarrow> real \<Rightarrow> npfloat" where
  "np_div a b = (if b = 0 then NaN else Fin (a / b))"

fun nf_map :: "(real \<Rightarrow> real) \<Rightarrow> npfloat \<Rightarrow> npfloat" where
  "nf_map f (Fin r) = Fin (f r)"
| "nf_map f NaN = NaN"

fun nf_map2 :: "(real \<Rightarrow> real \<Rightarrow> real) \<Rightarrow> npfloat \<Rightarrow> npfloat \<Rightarrow> npfloat" where
  "nf_map2 f (Fin a) (Fin b) = Fin (f a b)"
| "nf_map2 f a b = NaN"

fun nf_gt :: "npfloat \<Rightarrow> real \<Rightarrow> bool" where
  "nf_gt (Fin r) c = (c < r)"
| "nf_gt NaN c = False"

text \<open>
  The random numbers are inputs of the model. A \<open>rand_grid\<close> holds what the calls of
  \<open>np.random.rand(grid_size + 2, grid_size + 2)\<close> inside one call of
  \<open>perlin_noise_2d\<close> return, by octave, row and column.
\<close>

type_synonym rand_grid = "nat \<Rightarrow> nat \<Rightarrow> nat \<Rightarrow> real"

definition interpolate :: "real \<Rightarrow> real \<Rightarrow> real \<Rightarrow> real" where
  "interpolate a b x =
    (let ft = x * pi;
         f = (1 - cos ft) * 0.5
     in a * (1 - f) + b * f)"

definition grid_size :: "nat \<Rightarrow> real \<Rightarrow> nat \<Rightarrow> int" where
  "grid_size width scale octave =
    (let freq = 2 ^ octave
     in max 2 (py_int (real width / (10 * scale * freq))))"

text \<open>What one octave adds to \<open>noise[y, x]\<close>: the body of the two inner loops.\<close>

definition octave_sample ::
  "nat \<Rightarrow> nat \<Rightarrow> real \<Rightarrow> rand_grid \<Rightarrow> nat \<Rightarrow> nat \<Rightarrow> nat \<Rightarrow> real" where
  "octave_sample width height scale rnd octave y x =
    (let amp = 1 / 2 ^ octave;
         gs = grid_size width scale octave;
         gradients = (\<lambda>r c. rnd octave (nat r) (nat c) * 2 - 1);
         grid_x = real x / real width * of_int gs;
         grid_y = real y / real height * of_int gs;
         x0 = py_int grid_x;
         y0 = py_int grid_y;
         x1 = x0 + 1;
         y1 = y0 + 1;
         sx = grid_x - of_int x0;
         sy = grid_y - of_int y0;
         ix0 = interpolate (gradients y0 x0) (gradients y0 x1) sx;
         ix1 = interpolate (gradients y1 x0) (gradients y1 x1) sx
     in interpolate ix0 ix1 sy * amp)"

text \<open>\<open>noise[y, x]\<close> after the octave loop, which starts from \<open>np.zeros\<close>.\<close>

definition raw_noise ::
  "nat \<Rightarrow> nat \<Rightarrow> real \<Rightarrow> nat \<Rightarrow> rand_grid \<Rightarrow> nat \<Rightarrow> nat \<Rightarrow> real" where
  "raw_noise width height scale octaves rnd y x =
    foldl (\<lambda>acc octave. acc + octave_sample width height scale rnd octave y x) 0 [0..<octaves]"

text \<open>
  \<open>perlin_noise_2d\<close>. The float division \<open>width / (10 * scale * freq)\<close> raises when
  \<open>scale\<close> is zero, and \<open>noise.min()\<close> raises on an array without elements.
\<close>

definition perlin_noise_2d ::
  "nat \<Rightarrow> nat \<Rightarrow> real \<Rightarrow> nat \<Rightarrow> rand_grid \<Rightarrow> py_error + npfloat list list" where
  "perlin_noise_2d width height scale octaves rnd =
    (if 0 < octaves \<and> scale = 0 then Inl ZeroDivisionError
     else if width = 0 \<or> height = 0 then Inl ValueError
     else
       let noise = map (\<lambda>y. map (\<lambda>x. raw_noise width height scale octaves rnd y x)
                     [0..<width]) [0..<height];
           lo = Min (set (concat noise));
           hi = Max (set (concat noise))
       in Inr (map (map (\<lambda>v. np_div (v - lo) (hi - lo))) noise))"

section \<open>generate_block_textures.py: the pattern compositors\<close>

type_synonym color = "int \<times> int \<times> int"
type_synonym rgb = "byte \<times> byte \<times> byte"
type_synonym image = "rgb list list"

text \<open>
  The draws one call of \<open>generate_texture\<close> consumes: the grids of its first and second
  call of \<open>perlin_noise_2d\<close>, the grain array \<open>np.random.rand(height, width)\<close> and the
  values of \<open>random.random()\<close> by pixel.
\<close>

record rand_draws =
  np_noise :: rand_grid
  np_noise2 :: rand_grid
  np_grain :: "nat \<Rightarrow> nat \<Rightarrow> real"
  py_random :: "nat \<Rightarrow> nat \<Rightarrow> real"

text \<open>\<open>int(np.clip(v, 0, 255))\<close>, stored into the \<open>uint8\<close> image; \<open>int(nan)\<close> raises.\<close>

definition to_channel :: "npfloat \<Rightarrow> py_error + byte" where
  "to_channel v =
    (case v of
       NaN \<Rightarrow> Inl ValueError
     | Fin r \<Rightarrow> Inr (word_of_int (py_int (clip r 0 255))))"

text \<open>The three channels are computed in the order r, g, b; the first failure is raised.\<close>

definition rgb_of ::
  "py_error + byte \<Rightarrow> py_error + byte \<Rightarrow> py_error + byte \<Rightarrow> py_error + rgb" where
  "rgb_of r g b =
    (case r of Inl e \<Rightarrow> Inl e | Inr r' \<Rightarrow>
     (case g of Inl e \<Rightarrow> Inl e | Inr g' \<Rightarrow>
      (case b of Inl e \<Rightarrow> Inl e | Inr b' \<Rightarrow> Inr (r', g', b'))))"

fun sequence :: "('e + 'a) list \<Rightarrow> 'e + 'a list" where
  "sequence [] = Inr []"
| "sequence (r # rs) =
    (case r of Inl e \<Rightarrow> Inl e | Inr v \<Rightarrow>
     (case sequence rs of Inl e \<Rightarrow> Inl e | Inr vs \<Rightarrow> Inr (v # vs)))"

text \<open>The pixel loops \<open>for y in range(height): for x in range(width): img[y, x] = ...\<close>.\<close>

definition render_image :: "nat \<Rightarrow> nat \<Rightarrow> (nat \<Rightarrow> nat \<Rightarrow> py_error + rgb) \<Rightarrow> py_error + image" where
  "render_image width height px =
    sequence (map (\<lambda>y. sequence (map (\<lambda>x. px y x) [0..<width])) [0..<height])"

definition organic_pixel :: "color \<Rightarrow> int \<Rightarrow> npfloat \<Rightarrow> py_error + rgb" where
  "organic_pixel base_color variation n =
    (case base_color of (c0, c1, c2) \<Rightarrow>
      rgb_of (to_channel (nf_map (\<lambda>n. of_int c0 + (n - 0.5) * of_int variation * 2) n))
             (to_channel (nf_map (\<lambda>n. of_int c1 + (n - 0.5) * of_int variation * 2) n))
             (to_channel (nf_map (\<lambda>n. of_int c2 + (n - 0.5) * of_int variation * 2) n)))"

definition generate_organic_pattern ::
  "nat \<Rightarrow> nat \<Rightarrow> color \<Rightarrow> int \<Rightarrow> real \<Rightarrow> rand_draws \<Rightarrow> py_error + image" where
  "generate_organic_pattern width height base_color variation noise_scale rnd =
    (case perlin_noise_2d width height noise_scale 4 (np_noise rnd) of
       Inl e \<Rightarrow> Inl e
     | Inr noise \<Rightarrow>
         render_image width height (\<lambda>y x. organic_pixel base_color variation (noise ! y ! x)))"

definition rocky_pixel :: "color \<Rightarrow> int \<Rightarrow> npfloat \<Rightarrow> npfloat \<Rightarrow> py_error + rgb" where
  "rocky_pixel base_color variation n crack =
    (let darkness = (if nf_gt crack 0.85 then 0.3 else 1.0)
     in case base_color of (c0, c1, c2) \<Rightarrow>
      rgb_of (to_channel (nf_map (\<lambda>n. of_int c0 * darkness + (n - 0.5) * of_int variation * 2) n))
             (to_channel (nf_map (\<lambda>n. of_int c1 * darkness + (n - 0.5) * of_int variation * 2) n))
             (to_channel (nf_map (\<lambda>n. of_int c2 * darkness + (n - 0.5) * of_int variation * 2) n)))"

definition generate_rocky_pattern ::
  "nat \<Rightarrow> nat \<Rightarrow> color \<Rightarrow> int \<Rightarrow> real \<Rightarrow> rand_draws \<Rightarrow> py_error + image" where
  "generate_rocky_pattern width height base_color variation noise_scale rnd =
    (case perlin_noise_2d width height noise_scale 5 (np_noise rnd) of
       Inl e \<Rightarrow> Inl e
     | Inr noise \<Rightarrow>
        (case perlin_noise_2d width height 0.5 2 (np_noise2 rnd) of
           Inl e \<Rightarrow> Inl e
         | Inr crack_noise \<Rightarrow>
             render_image width height
               (\<lambda>y x. rocky_pixel base_color variation (noise ! y ! x) (crack_noise ! y ! x))))"

definition generate_grainy_pattern ::
  "nat \<Rightarrow> nat \<Rightarrow> color \<Rightarrow> int \<Rightarrow> real \<Rightarrow> rand_draws \<Rightarrow> py_error + image" where
  "generate_grainy_pattern width height base_color variation noise_scale rnd =
    (case perlin_noise_2d width height noise_scale 6 (np_noise rnd) of
       Inl e \<Rightarrow> Inl e
     | Inr noise \<Rightarrow>
         (let grain = (\<lambda>y x. np_grain rnd y x * 0.2)
          in render_image width height
               (\<lambda>y x. organic_pixel base_color variation
                          (nf_map (\<lambda>v. v + grain y x) (noise ! y ! x)))))"

definition crystalline_pixel :: "color \<Rightarrow> bool \<Rightarrow> npfloat \<Rightarrow> real \<Rightarrow> py_error + rgb" where
  "crystalline_pixel base_color sparkle n random =
    (let brightness = (if nf_gt n 0.7 then 1.3 else if nf_gt n 0.4 then 1.0 else 0.8);
         brightness = (if sparkle \<and> 0.95 < random then 1.8 else brightness)
     in case base_color of (c0, c1, c2) \<Rightarrow>
      rgb_of (to_channel (Fin (of_int c0 * brightness)))
             (to_channel (Fin (of_int c1 * brightness)))
             (to_channel (Fin (of_int c2 * brightness))))"

definition generate_crystalline_pattern ::
  "nat \<Rightarrow> nat \<Rightarrow> color \<Rightarrow> int \<Rightarrow> real \<Rightarrow> bool \<Rightarrow> rand_draws \<Rightarrow> py_error + image" where
  "generate_crystalline_pattern width height base_color variation noise_scale sparkle rnd =
    (case perlin_noise_2d width height noise_scale 3 (np_noise rnd) of
       Inl e \<Rightarrow> Inl e
     | Inr noise \<Rightarrow>
         render_image width height
           (\<lambda>y x. crystalline_pixel base_color sparkle (noise ! y ! x) (py_random rnd y x)))"

definition metallic_brightness :: "npfloat \<Rightarrow> real" where
  "metallic_brightness n = (if nf_gt n 0.6 then 1.2 else 0.9)"

definition metallic_pixel :: "color \<Rightarrow> int \<Rightarrow> color \<Rightarrow> npfloat \<Rightarrow> npfloat \<Rightarrow> py_error + rgb" where
  "metallic_pixel base_color variation ore_color n vein =
    (let brightness = metallic_brightness n
     in if nf_gt vein 0.6
        then (case ore_color of (o0, o1, o2) \<Rightarrow>
          rgb_of (to_channel (Fin (of_int o0 * brightness)))
                 (to_channel (Fin (of_int o1 * brightness)))
                 (to_channel (Fin (of_int o2 * brightness))))
        else (case base_color of (c0, c1, c2) \<Rightarrow>
          rgb_of (to_channel (nf_map (\<lambda>n. of_int c0 * brightness + (n - 0.5) * of_int variation) n))
                 (to_channel (nf_map (\<lambda>n. of_int c1 * brightness + (n - 0.5) * of_int variation) n))
                 (to_channel (nf_map (\<lambda>n. of_int c2 * brightness + (n - 0.5) * of_int variation) n))))"

definition generate_metallic_pattern ::
  "nat \<Rightarrow> nat \<Rightarrow> color \<Rightarrow> int \<Rightarrow> real \<Rightarrow> color \<Rightarrow> rand_draws \<Rightarrow> py_error + image" where
  "generate_metallic_pattern width height base_color variation noise_scale ore_color rnd =
    (case perlin_noise_2d width height noise_scale 3 (np_noise rnd) of
       Inl e \<Rightarrow> Inl e
     | Inr noise \<Rightarrow>
        (case perlin_noise_2d width height 0.15 2 (np_noise2 rnd) of
           Inl e \<Rightarrow> Inl e
         | Inr vein_noise \<Rightarrow>
             render_image width height
               (\<lambda>y x. metallic_pixel base_color variation ore_color
                          (noise ! y ! x) (vein_noise ! y ! x))))"

definition ore_pixel :: "color \<Rightarrow> int \<Rightarrow> npfloat \<Rightarrow> py_error + rgb" where
  "ore_pixel ore_color variation n =
    (case ore_color of (o0, o1, o2) \<Rightarrow>
      rgb_of (to_channel (nf_map (\<lambda>n. of_int o0 + (n - 0.5) * of_int variation * 2) n))
             (to_channel (nf_map (\<lambda>n. of_int o1 + (n - 0.5) * of_int variation * 2) n))
             (to_channel (nf_map (\<lambda>n. of_int o2 + (n - 0.5) * of_int variation * 2) n)))"

definition generate_ore_pattern ::
  "nat \<Rightarrow> nat \<Rightarrow> color \<Rightarrow> int \<Rightarrow> real \<Rightarrow> color \<Rightarrow> rand_draws \<Rightarrow> py_error + image" where
  "generate_ore_pattern width height base_color variation noise_scale ore_color rnd =
    (case perlin_noise_2d width height noise_scale 4 (np_noise rnd) of
       Inl e \<Rightarrow> Inl e
     | Inr noise \<Rightarrow>
         render_image width height (\<lambda>y x. ore_pixel ore_color variation (noise ! y ! x)))"

definition fluid_brightness :: "bool \<Rightarrow> real \<Rightarrow> real \<Rightarrow> real" where
  "fluid_brightness glow wave n =
    (if glow then 0.8 + wave * 0.5 + n * 0.3 else 0.9 + wave * 0.3)"

definition fluid_pixel :: "color \<Rightarrow> int \<Rightarrow> bool \<Rightarrow> npfloat \<Rightarrow> npfloat \<Rightarrow> py_error + rgb" where
  "fluid_pixel base_color variation glow n wave =
    (case base_color of (c0, c1, c2) \<Rightarrow>
      rgb_of
        (to_channel (nf_map2
           (\<lambda>wave n. of_int c0 * fluid_brightness glow wave n + (n - 0.5) * of_int variation) wave n))
        (to_channel (nf_map2
           (\<lambda>wave n. of_int c1 * fluid_brightness glow wave n + (n - 0.5) * of_int variation) wave n))
        (to_channel (nf_map2
           (\<lambda>wave n. of_int c2 * fluid_brightness glow wave n + (n - 0.5) * of_int variation) wave n)))"

definition generate_fluid_pattern ::
  "nat \<Rightarrow> nat \<Rightarrow> color \<Rightarrow> int \<Rightarrow> real \<Rightarrow> bool \<Rightarrow> rand_draws \<Rightarrow> py_error + image" where
  "generate_fluid_pattern width height base_color variation noise_scale glow rnd =
    (case perlin_noise_2d width height noise_scale 4 (np_noise rnd) of
       Inl e \<Rightarrow> Inl e
     | Inr noise \<Rightarrow>
        (case perlin_noise_2d width height 0.4 2 (np_noise2 rnd) of
           Inl e \<Rightarrow> Inl e
         | Inr wave_noise \<Rightarrow>
             render_image width height
               (\<lambda>y x. fluid_pixel base_color variation glow (noise ! y ! x) (wave_noise ! y ! x))))"

section \<open>generate_block_textures.py: the batch driver\<close>

text \<open>
  An entry of \<open>BLOCK_TEXTURES\<close>. The keys \<open>ore_color\<close>, \<open>sparkle\<close> and \<open>glow\<close> are
  present in some entries only; \<open>variation\<close> and the colour components are Python ints.
\<close>

record config =
  base_color :: color
  variation :: int
  noise_scale :: real
  pattern :: string
  recipe :: string
  ore_color :: "color option"
  sparkle :: "bool option"
  glow :: "bool option"

text \<open>
  \<open>generate_texture\<close>: \<open>config["ore_color"]\<close> raises \<open>KeyError\<close> when the key is
  missing, \<open>config.get(key, False)\<close> does not. The image handed to the encoder is the
  array itself.
\<close>

definition generate_texture ::
  "string \<Rightarrow> config \<Rightarrow> nat \<Rightarrow> nat \<Rightarrow> rand_draws \<Rightarrow> py_error + image" where
  "generate_texture block_name cfg width height rnd =
    (if pattern cfg = ''organic'' then
       generate_organic_pattern width height (base_color cfg) (variation cfg) (noise_scale cfg) rnd
     else if pattern cfg = ''rocky'' then
       generate_rocky_pattern width height (base_color cfg) (variation cfg) (noise_scale cfg) rnd
     else if pattern cfg = ''grainy'' then
       generate_grainy_pattern width height (base_color cfg) (variation cfg) (noise_scale cfg) rnd
     else if pattern cfg = ''crystalline'' then
       generate_crystalline_pattern width height (base_color cfg) (variation cfg) (noise_scale cfg)
         (case sparkle cfg of None \<Rightarrow> False | Some b \<Rightarrow> b) rnd
     else if pattern cfg = ''metallic'' then
       (case ore_color cfg of
          None \<Rightarrow> Inl KeyError
        | Some oc \<Rightarrow>
            generate_metallic_pattern width height (base_color cfg) (variation cfg)
              (noise_scale cfg) oc rnd)
     else if pattern cfg = ''ore'' then
       (case ore_color cfg of
          None \<Rightarrow> Inl KeyError
        | Some oc \<Rightarrow>
            generate_ore_pattern width height (base_color cfg) (variation cfg)
              (noise_scale cfg) oc rnd)
     else if pattern cfg = ''fluid'' then
       generate_fluid_pattern width height (base_color cfg) (variation cfg) (noise_scale cfg)
         (case glow cfg of None \<Rightarrow> False | Some b \<Rightarrow> b) rnd
     else
       generate_organic_pattern width height (base_color cfg) (variation cfg) (noise_scale cfg) rnd)"

text \<open>
  The state of \<open>main\<close>: the files of the texture directory by name (what
  \<open>output_path.exists()\<close> reads and \<open>texture.save\<close> writes) and the two counters.
  \<open>generated\<close> is incremented with every save and nowhere else, so it counts the writes.
\<close>

record driver_state =
  files :: "string \<rightharpoonup> image"
  generated :: nat
  skipped :: nat

definition output_path :: "string \<Rightarrow> string" where
  "output_path block_name = block_name @ ''.png''"

text \<open>
  The loop of \<open>main\<close> over \<open>BLOCK_TEXTURES.items()\<close>. It has no exception handler: an
  exception of \<open>generate_texture\<close> leaves the loop, with the state reached so far.
\<close>

fun main_loop ::
  "(string \<times> config) list \<Rightarrow> (string \<Rightarrow> rand_draws) \<Rightarrow> driver_state
   \<Rightarrow> py_error option \<times> driver_state" where
  "main_loop [] rnd s = (None, s)"
| "main_loop ((block_name, cfg) # rest) rnd s =
    (if files s (output_path block_name) \<noteq> None
     then main_loop rest rnd (s\<lparr>skipped := skipped s + 1\<rparr>)
     else
       (case generate_texture block_name cfg 32 32 (rnd block_name) of
          Inl e \<Rightarrow> (Some e, s)
        | Inr texture \<Rightarrow>
            main_loop rest rnd
              (s\<lparr>files := (files s)(output_path block_name \<mapsto> texture),
                 generated := generated s + 1\<rparr>)))"

definition main ::
  "(string \<times> config) list \<Rightarrow> (string \<Rightarrow> rand_draws) \<Rightarrow> (string \<rightharpoonup> image)
   \<Rightarrow> py_error option \<times> driver_state" where
  "main catalog rnd fs = main_loop catalog rnd \<lparr>files = fs, generated = 0, skipped = 0\<rparr>"

text \<open>
  The handler under \<open>if __name__ == "__main__"\<close>: any exception of \<open>main\<close> is printed
  once and the process exits with status 1. The result is the exit status and the files.
\<close>

definition run_script ::
  "(string \<times> config) list \<Rightarrow> (string \<Rightarrow> rand_draws) \<Rightarrow> (string \<rightharpoonup> image)
   \<Rightarrow> nat \<times> (string \<rightharpoonup> image)" where
  "run_script catalog rnd fs =
    (case main catalog rnd fs of
       (None, s) \<Rightarrow> (0, files s)
     | (Some e, s) \<Rightarrow> (1, files s))"

section \<open>Catalog entries and random draws used as concrete inputs\<close>

text \<open>Four entries of \<open>BLOCK_TEXTURES\<close>, as the script gives them.\<close>

definition ice_cfg :: config where
  "ice_cfg = \<lparr>base_color = (200, 220, 255), variation = 15, noise_scale = 0.2,
     pattern = ''crystalline'', recipe = ''Frozen water - snow biome surface'',
     ore_color = None, sparkle = None, glow = None\<rparr>"

definition coal_cfg :: config where
  "coal_cfg = \<lparr>base_color = (30, 30, 30), variation = 15, noise_scale = 0.2,
     pattern = ''ore'', recipe = ''Carbon ore - fuel source'',
     ore_color = Some (10, 10, 10), sparkle = None, glow = None\<rparr>"

definition iron_block_cfg :: config where
  "iron_block_cfg = \<lparr>base_color = (180, 180, 190), variation = 20, noise_scale = 0.15,
     pattern = ''metallic'', recipe = ''Iron ore - common metal'',
     ore_color = Some (160, 140, 130), sparkle = None, glow = None\<rparr>"

definition water_cfg :: config where
  "water_cfg = \<lparr>base_color = (40, 80, 180), variation = 20, noise_scale = 0.2,
     pattern = ''fluid'', recipe = ''Water - essential liquid'',
     ore_color = None, sparkle = None, glow = None\<rparr>"

text \<open>
  Random draws: every gradient grid holds 0 in column 0 and 1/2 elsewhere, the grain and the
  sparkle draws are 0.
\<close>

definition example_grid :: rand_grid where
  "example_grid octave r c = (if c = 0 then 0 else 1 / 2)"

definition example_draws :: rand_draws where
  "example_draws = \<lparr>np_noise = example_grid, np_noise2 = example_grid,
     np_grain = (\<lambda>y x. 0), py_random = (\<lambda>y x. 0)\<rparr>"

definition example_rnd :: "string \<Rightarrow> rand_draws" where
  "example_rnd block_name = example_draws"

text \<open>A catalog whose first entry is a metallic material without the key \<open>ore_color\<close>.\<close>

definition broken_catalog :: "(string \<times> config) list" where
  "broken_catalog =
    [(''iron_block'', iron_block_cfg\<lparr>ore_color := None\<rparr>), (''ice'', ice_cfg)]"

section \<open>Reference definition of the 3D smooth noise\<close>

text \<open>
  The smooth-noise primitive as the specification words it: cell coordinates taken modulo
  256, the fractional offsets smoothed, the eight corner hashes, and linear interpolation
  along x, then y, then z. It is compared with \<open>perlin_noise_3d\<close> below.
\<close>

definition hash_ref :: "real \<Rightarrow> real" where
  "hash_ref v = frac \<bar>sin (v * 12.9898 + 78.233) * 43758.5453\<bar>"

definition smooth_ref :: "real \<Rightarrow> real" where
  "smooth_ref t = t * t * (3 - 2 * t)"

definition lerp_ref :: "real \<Rightarrow> real \<Rightarrow> real \<Rightarrow> real" where
  "lerp_ref a b t = (1 - t) * a + t * b"

definition perlinNoise3D_ref :: "real \<Rightarrow> real \<Rightarrow> real \<Rightarrow> real" where
  "perlinNoise3D_ref x y z =
    (let ix = \<lfloor>x\<rfloor> mod 256;
         iy = \<lfloor>y\<rfloor> mod 256;
         iz = \<lfloor>z\<rfloor> mod 256;
         u = smooth_ref (frac x);
         v = smooth_ref (frac y);
         w = smooth_ref (frac z);
         corner = (\<lambda>dx dy dz. hash_ref (of_int ((ix + dx) + (iy + dy) * 57 + (iz + dz) * 113)))
     in lerp_ref
          (lerp_ref (lerp_ref (corner 0 0 0) (corner 1 0 0) u)
                    (lerp_ref (corner 0 1 0) (corner 1 1 0) u) v)
          (lerp_ref (lerp_ref (corner 0 0 1) (corner 1 0 1) u)
                    (lerp_ref (corner 0 1 1) (corner 1 1 1) u) v) w)"


section \<open>Properties of the 3D noise primitives\<close>

lemma and255: "(k::int) AND 255 = k mod 256"
proof -
  have "k AND mask 8 = k mod 2 ^ 8" by (simp only: take_bit_eq_mask [symmetric] take_bit_eq_mod)
  then show ?thesis by (simp add: mask_eq_exp_minus_1)
qed

lemma py_fmod_one: "py_fmod a 1 = frac a"
  by (simp add: py_fmod_def frac_def)

lemma hash_float_range: "0 \<le> hash_float v \<and> hash_float v < 1"
  by (simp add: hash_float_def py_fmod_one frac_lt_1)

lemma smoothstep_range:
  fixes t :: real
  assumes "0 \<le> t" "t \<le> 1"
  shows "0 \<le> t * t * (3.0 - 2.0 * t) \<and> t * t * (3.0 - 2.0 * t) \<le> 1"
proof (simp, rule conjI)
  from assms show "0 \<le> t * t * (3 - 2 * t)" by simp
  have "1 - t * t * (3 - 2 * t) = (1 - t) * (1 - t) * (1 + 2 * t)" by algebra
  moreover from assms have "0 \<le> (1 - t) * (1 - t) * (1 + 2 * t)" by simp
  ultimately show "t * t * (3 - 2 * t) \<le> 1" by linarith
qed

lemma lerp_range:
  fixes a b t :: real
  assumes "0 \<le> a" "a < 1" "0 \<le> b" "b < 1" "0 \<le> t" "t \<le> 1"
  shows "0 \<le> a * (1 - t) + b * t \<and> a * (1 - t) + b * t < 1"
proof
  from assms show "0 \<le> a * (1 - t) + b * t" by simp
  show "a * (1 - t) + b * t < 1"
  proof (cases "t = 0")
    case True with assms show ?thesis by simp
  next
    case False
    with assms have "0 < t" by simp
    with assms have "b * t < 1 * t" by (simp del: mult_1)
    moreover from assms have "a * (1 - t) \<le> 1 * (1 - t)" by (intro mult_right_mono) simp_all
    ultimately show ?thesis by simp
  qed
qed

lemma frac_part_range: "0 \<le> x - real_of_int \<lfloor>x\<rfloor> \<and> x - real_of_int \<lfloor>x\<rfloor> \<le> 1"
  by linarith

lemma perlin_range: "0 \<le> perlin_noise_3d x y z \<and> perlin_noise_3d x y z < 1"
proof -
  note h = hash_float_range
  note s = smoothstep_range [OF frac_part_range [THEN conjunct1] frac_part_range [THEN conjunct2]]
  note l = lerp_range [OF _ _ _ _ conjunct1 [OF s] conjunct2 [OF s]]
  note lh = l [OF conjunct1 [OF h] conjunct2 [OF h] conjunct1 [OF h] conjunct2 [OF h]]
  note l2 = l [OF conjunct1 [OF lh] conjunct2 [OF lh] conjunct1 [OF lh] conjunct2 [OF lh]]
  note l3 = l [OF conjunct1 [OF l2] conjunct2 [OF l2] conjunct1 [OF l2] conjunct2 [OF l2]]
  show ?thesis
    unfolding perlin_noise_3d_def Let_def by (rule l3)
qed

lemma hash_float_ref: "hash_float v = hash_ref v"
  by (simp add: hash_float_def hash_ref_def py_fmod_one)

lemma lerp_ref_alt: "a * (1 - t) + b * t = lerp_ref a b t"
  by (simp add: lerp_ref_def mult.commute)

lemma smooth_ref_alt: "(x - of_int \<lfloor>x\<rfloor>) * (x - of_int \<lfloor>x\<rfloor>) * (3.0 - 2.0 * (x - of_int \<lfloor>x\<rfloor>)) = smooth_ref (frac x)"
  by (simp add: smooth_ref_def frac_def)

text \<open>
  Claim C6. For all real \<open>x\<close>, \<open>y\<close>, \<open>z\<close> the smooth noise of the script equals the reference
  definition: cell coordinates \<open>floor\<close> masked to \<open>mod 256\<close>, offsets smoothed by
  \<open>t * t * (3 - 2 * t)\<close>, corner hashes of \<open>ix + iy * 57 + iz * 113\<close> with the \<open>+1\<close> offsets,
  \<open>hash v = |sin (v * 12.9898 + 78.233) * 43758.5453| mod 1\<close>, interpolated along x, then y,
  then z.
\<close>

theorem perlin_noise_3d_refines_reference:
  "perlin_noise_3d x y z = perlinNoise3D_ref x y z"
  unfolding perlin_noise_3d_def perlinNoise3D_ref_def Let_def and255 hash_float_ref
    smooth_ref_alt lerp_ref_alt
  by (simp only: add_0_right add.assoc)

lemma foldl_invariant:
  assumes "P a" and "\<And>a x. P a \<Longrightarrow> P (f a x)"
  shows "P (foldl f a xs)"
  using assms(1) by (induction xs arbitrary: a) (simp_all add: assms(2))

lemma feature_dist_nonneg: "0 \<le> feature_dist x y z cx cy cz dx dy dz"
  by (simp add: feature_dist_def Let_def)

lemma worley_range:
  "0 \<le> worley_noise_3d x y z \<and> worley_noise_3d x y z \<le> 1"
proof -
  let ?P = "\<lambda>m::real. 0 \<le> m \<and> m \<le> 1"
  have step: "?P (min m (feature_dist x y z cx cy cz dx dy dz))" if "?P m" for m cx cy cz dx dy dz
    using that feature_dist_nonneg [of x y z cx cy cz dx dy dz] by (simp add: min_def)
  have "?P (foldl (\<lambda>md dz.
             foldl (\<lambda>md dy.
               foldl (\<lambda>md dx. min md (feature_dist x y z cx cy cz dx dy dz))
                 md ds1) md ds2) 1.0 ds3)" for cx cy cz ds1 ds2 ds3
    by (rule foldl_invariant, simp, rule foldl_invariant, assumption, rule foldl_invariant,
        assumption, rule step)
  from this [of "of_int \<lfloor>x\<rfloor>" "of_int \<lfloor>y\<rfloor>" "of_int \<lfloor>z\<rfloor>" "[-1, 0, 1]" "[-1, 0, 1]" "[-1, 0, 1]"]
  show ?thesis unfolding worley_noise_3d_def Let_def by linarith
qed

lemma Min_insert_Min:
  assumes "finite A" and "finite B"
  shows "Min (insert (Min (insert a A)) B) = Min (insert a (A \<union> B))"
proof (cases "B = {}")
  case True
  then show ?thesis by simp
next
  case False
  have "Min (insert a (A \<union> B)) = Min (insert a A \<union> B)" by simp
  also have "\<dots> = min (Min (insert a A)) (Min B)"
    using assms False by (intro Min_Un) simp_all
  also have "\<dots> = Min (insert (Min (insert a A)) B)"
    using assms False by simp
  finally show ?thesis by simp
qed

lemma foldl_Min_union:
  assumes "\<And>d. finite (S d)"
  shows "foldl (\<lambda>m d. Min (insert m (S d))) a ds = Min (insert a (\<Union>d\<in>set ds. S d))"
proof (induction ds arbitrary: a)
  case Nil
  then show ?case by simp
next
  case (Cons d ds)
  have "foldl (\<lambda>m d. Min (insert m (S d))) a (d # ds)
      = Min (insert (Min (insert a (S d))) (\<Union>d\<in>set ds. S d))"
    by (simp add: Cons.IH)
  also have "\<dots> = Min (insert a (S d \<union> (\<Union>d\<in>set ds. S d)))"
    using assms by (intro Min_insert_Min) simp_all
  finally show ?case by simp
qed

lemma worley_min_dist:
  "worley_noise_3d x y z =
     1 - Min (insert 1 (\<Union>dz\<in>{-1, 0, 1}. \<Union>dy\<in>{-1, 0, 1}. \<Union>dx\<in>{-1, 0, 1}.
            {feature_dist x y z (of_int \<lfloor>x\<rfloor>) (of_int \<lfloor>y\<rfloor>) (of_int \<lfloor>z\<rfloor>) dx dy dz}))"
proof -
  define F where "F = feature_dist x y z (of_int \<lfloor>x\<rfloor>) (of_int \<lfloor>y\<rfloor>) (of_int \<lfloor>z\<rfloor>)"
  define D :: "real list" where "D = [-1, 0, 1]"
  have i: "foldl (\<lambda>md dx. min md (F dx dy dz)) md D
      = Min (insert md (\<Union>dx\<in>set D. {F dx dy dz}))" for md dy dz
    using foldl_Min_union [of "\<lambda>dx. {F dx dy dz}" md D] by simp
  have j: "foldl (\<lambda>md dy. foldl (\<lambda>md dx. min md (F dx dy dz)) md D) md D
      = Min (insert md (\<Union>dy\<in>set D. \<Union>dx\<in>set D. {F dx dy dz}))" for md dz
    unfolding i by (rule foldl_Min_union) simp
  have k: "foldl (\<lambda>md dz. foldl (\<lambda>md dy. foldl (\<lambda>md dx. min md (F dx dy dz)) md D) md D) 1 D
      = Min (insert 1 (\<Union>dz\<in>set D. \<Union>dy\<in>set D. \<Union>dx\<in>set D. {F dx dy dz}))"
    unfolding j by (rule foldl_Min_union) simp
  have s: "set D = {-1, 0, 1}" by (simp add: D_def)
  have one: "(1.0::real) = 1" by simp
  have "worley_noise_3d x y z
      = 1 - foldl (\<lambda>md dz. foldl (\<lambda>md dy. foldl (\<lambda>md dx. min md (F dx dy dz)) md D) md D) 1 D"
    using one by (simp only: worley_noise_3d_def Let_def F_def D_def)
  also have "\<dots> = 1 - Min (insert 1 (\<Union>dz\<in>{-1, 0, 1}. \<Union>dy\<in>{-1, 0, 1}. \<Union>dx\<in>{-1, 0, 1}.
      {F dx dy dz}))"
    by (simp only: k s)
  finally show ?thesis unfolding F_def .
qed

text \<open>
  Claim C7. For all real coordinates the cellular noise lies in \<open>[0, 1]\<close>: it is 1 minus the
  minimum of the bound 1 and the distances to the feature points of the 27 neighbour cells,
  every distance is non-negative, and so that minimum lies in \<open>[0, 1]\<close>.
\<close>

theorem worley_noise_3d_range:
  "worley_noise_3d x y z =
     1 - Min (insert 1 (\<Union>dz\<in>{-1, 0, 1}. \<Union>dy\<in>{-1, 0, 1}. \<Union>dx\<in>{-1, 0, 1}.
            {feature_dist x y z (of_int \<lfloor>x\<rfloor>) (of_int \<lfloor>y\<rfloor>) (of_int \<lfloor>z\<rfloor>) dx dy dz}))
   \<and> 0 \<le> feature_dist x y z cx cy cz dx dy dz
   \<and> 0 \<le> Min (insert 1 (\<Union>dz\<in>{-1, 0, 1}. \<Union>dy\<in>{-1, 0, 1}. \<Union>dx\<in>{-1, 0, 1}.
            {feature_dist x y z (of_int \<lfloor>x\<rfloor>) (of_int \<lfloor>y\<rfloor>) (of_int \<lfloor>z\<rfloor>) dx dy dz}))
   \<and> Min (insert 1 (\<Union>dz\<in>{-1, 0, 1}. \<Union>dy\<in>{-1, 0, 1}. \<Union>dx\<in>{-1, 0, 1}.
            {feature_dist x y z (of_int \<lfloor>x\<rfloor>) (of_int \<lfloor>y\<rfloor>) (of_int \<lfloor>z\<rfloor>) dx dy dz})) \<le> 1
   \<and> 0 \<le> worley_noise_3d x y z \<and> worley_noise_3d x y z \<le> 1"
proof -
  define m where "m = Min (insert 1 (\<Union>dz\<in>{-1, 0, 1}. \<Union>dy\<in>{-1, 0, 1}. \<Union>dx\<in>{-1, 0, 1}.
      {feature_dist x y z (of_int \<lfloor>x\<rfloor>) (of_int \<lfloor>y\<rfloor>) (of_int \<lfloor>z\<rfloor>) dx dy dz}))"
  have w: "worley_noise_3d x y z = 1 - m" unfolding m_def by (rule worley_min_dist)
  with worley_range [of x y z] have "0 \<le> m" "m \<le> 1" by simp_all
  with w worley_range [of x y z] feature_dist_nonneg [of x y z cx cy cz dx dy dz]
  show ?thesis unfolding m_def [symmetric] by simp
qed

section \<open>Properties of the volume and its file\<close>

lemma clip_range: "lo \<le> hi \<Longrightarrow> lo \<le> clip v lo hi \<and> clip v lo hi \<le> hi"
  by (simp add: clip_def min_def max_def)

lemma clip_id: "lo \<le> v \<Longrightarrow> v \<le> hi \<Longrightarrow> clip v lo hi = v"
  by (simp add: clip_def min_def max_def)

lemma py_int_scaled_range:
  assumes "0 \<le> r" "r \<le> 1"
  shows "0 \<le> py_int (r * 255) \<and> py_int (r * 255) \<le> 255"
proof -
  from assms have "0 \<le> r * 255" "r * 255 \<le> 255" by simp_all
  then have "0 \<le> \<lfloor>r * 255\<rfloor>" "\<lfloor>r * 255\<rfloor> \<le> 255" by (simp_all add: floor_le_iff le_floor_iff)
  with \<open>0 \<le> r * 255\<close> show ?thesis by (simp add: py_int_def)
qed

lemma uint_byte_of_int: "0 \<le> k \<Longrightarrow> k \<le> 255 \<Longrightarrow> uint (word_of_int k :: byte) = k"
  by (simp add: uint_word_of_int take_bit_int_eq_self)

lemma voxel_noise_range: "0 \<le> voxel_noise n x y z \<and> voxel_noise n x y z \<le> 1"
  unfolding voxel_noise_def using clip_range [of 0 1] by simp

lemma uint_voxel_byte: "uint (voxel_byte n x y z) = py_int (voxel_noise n x y z * 255)"
  unfolding voxel_byte_def
  using py_int_scaled_range [OF voxel_noise_range [THEN conjunct1] voxel_noise_range [THEN conjunct2]]
  by (simp add: uint_byte_of_int)

lemma voxel_blend_range: "0 \<le> voxel_blend n x y z \<and> voxel_blend n x y z < 1"
proof -
  define p where "p = perlin_noise_3d (real x / real n * 4.0) (real y / real n * 4.0) (real z / real n * 4.0)"
  define w where "w = worley_noise_3d (real x / real n * 2.0) (real y / real n * 2.0) (real z / real n * 2.0)"
  have "0 \<le> p" "p < 1" "0 \<le> w" "w \<le> 1"
    unfolding p_def w_def using perlin_range worley_range by blast+
  moreover have "voxel_blend n x y z = p * 0.6 + w * 0.4"
    by (simp only: voxel_blend_def Let_def p_def w_def)
  ultimately show ?thesis by simp
qed

text \<open>
  Claim C10. For all real inputs the smooth noise lies in \<open>[0, 1)\<close>, being a convex
  combination of hash values in \<open>[0, 1)\<close>; hence the blend \<open>0.6 * perlin + 0.4 * worley\<close>
  of every voxel lies in \<open>[0, 1]\<close> before the clip (which leaves it unchanged), the quantised
  intensity lies in \<open>0 .. 255\<close>, and the byte stored in the \<open>uint8\<close> array has exactly that
  value: nothing wraps.
\<close>

theorem perlin_blend_quantize_range:
  "0 \<le> perlin_noise_3d x y z \<and> perlin_noise_3d x y z < 1
   \<and> 0 \<le> voxel_blend n vx vy vz \<and> voxel_blend n vx vy vz \<le> 1
   \<and> voxel_noise n vx vy vz = voxel_blend n vx vy vz
   \<and> 0 \<le> py_int (voxel_noise n vx vy vz * 255)
   \<and> py_int (voxel_noise n vx vy vz * 255) \<le> 255
   \<and> uint (voxel_byte n vx vy vz) = py_int (voxel_noise n vx vy vz * 255)"
proof -
  have b: "0 \<le> voxel_blend n vx vy vz" "voxel_blend n vx vy vz \<le> 1"
    using voxel_blend_range [of n vx vy vz] by simp_all
  have "voxel_noise n vx vy vz = voxel_blend n vx vy vz"
    unfolding voxel_noise_def using b by (simp add: clip_id)
  moreover note py_int_scaled_range [OF voxel_noise_range [THEN conjunct1] voxel_noise_range [THEN conjunct2], of n vx vy vz]
  ultimately show ?thesis using perlin_range [of x y z] b uint_voxel_byte [of n vx vy vz] by simp
qed

lemma nth_concat_uniform:
  assumes "list_all (\<lambda>xs. length xs = n) xss" "i < length xss" "j < n"
  shows "concat xss ! (i * n + j) = xss ! i ! j"
  using assms
proof (induction xss arbitrary: i)
  case Nil
  then show ?case by simp
next
  case (Cons xs xss)
  show ?case
  proof (cases i)
    case 0
    with Cons.prems show ?thesis by (simp add: nth_append)
  next
    case (Suc k)
    with Cons.prems have "concat xss ! (k * n + j) = xss ! k ! j"
      by (intro Cons.IH) simp_all
    with Suc Cons.prems show ?thesis by (simp add: nth_append)
  qed
qed

lemma length_concat_uniform:
  "list_all (\<lambda>xs. length xs = n) xss \<Longrightarrow> length (concat xss) = length xss * n"
  by (induction xss) simp_all

lemma list_all_concat:
  "list_all (\<lambda>xs. list_all P xs) xss \<Longrightarrow> list_all P (concat xss)"
  by (induction xss) simp_all

lemma is_cube_planes:
  assumes "is_cube n data"
  shows "length data = n" "list_all (\<lambda>plane. length plane = n) data"
    "list_all (\<lambda>row. length row = n) (concat data)"
proof -
  from assms show "length data = n" by (simp add: is_cube_def)
  from assms show "list_all (\<lambda>plane. length plane = n) data"
    by (simp add: is_cube_def list_all_iff)
  from assms have "list_all (\<lambda>plane. list_all (\<lambda>row. length row = n) plane) data"
    by (simp add: is_cube_def list_all_iff)
  then show "list_all (\<lambda>row. length row = n) (concat data)" by (rule list_all_concat)
qed

lemma tobytes_length: "is_cube n data \<Longrightarrow> length (tobytes data) = n ^ 3"
  using is_cube_planes [of n data]
  by (simp add: tobytes_def length_concat_uniform power3_eq_cube)

lemma tobytes_nth:
  assumes "is_cube n data" "x < n" "y < n" "z < n"
  shows "tobytes data ! (x + y * n + z * n * n) = data ! z ! y ! x"
proof -
  note c = is_cube_planes [OF assms(1)]
  have len: "length (concat data) = n * n" using c by (simp add: length_concat_uniform)
  have "z * n + y < n * n"
  proof -
    have "z * n + y < z * n + n" using assms by simp
    also have "\<dots> = (z + 1) * n" by simp
    also have "\<dots> \<le> n * n" using assms by (simp del: mult_Suc)
    finally show ?thesis .
  qed
  then have "concat (concat data) ! ((z * n + y) * n + x) = concat data ! (z * n + y) ! x"
    using c(3) len assms(2) by (intro nth_concat_uniform) simp_all
  also have "concat data ! (z * n + y) = data ! z ! y"
    using c assms by (intro nth_concat_uniform) simp_all
  finally show ?thesis by (simp add: tobytes_def algebra_simps)
qed

lemma is_cube_generated:
  "is_cube n (map (\<lambda>z. map (\<lambda>y. map (\<lambda>x. f x y z) [0..<n]) [0..<n]) [0..<n])"
  by (simp add: is_cube_def list_all_iff)

lemma base256_digits:
  fixes n :: nat
  shows "n mod 256 + 256 * (n div 256 mod 256) + 65536 * (n div 65536 mod 256)
      + 16777216 * (n div 16777216) = n"
proof -
  define q1 where "q1 = n div 256"
  define q2 where "q2 = q1 div 256"
  define q3 where "q3 = q2 div 256"
  have d2: "n div 65536 = q2"
    using div_mult2_eq [of n 256 256] by (simp add: q1_def q2_def)
  have d3: "n div 16777216 = q3"
    using div_mult2_eq [of n 65536 256] d2 by (simp add: q3_def)
  have "n = n mod 256 + 256 * q1" by (simp add: q1_def)
  moreover have "q1 = q1 mod 256 + 256 * q2" by (simp add: q2_def)
  moreover have "q2 = q2 mod 256 + 256 * q3" by (simp add: q3_def)
  ultimately have "n = n mod 256 + 256 * (q1 mod 256 + 256 * (q2 mod 256 + 256 * q3))"
    by simp
  then show ?thesis unfolding d2 d3 unfolding q1_def [symmetric] by simp
qed

lemma pack_I_le32:
  assumes "n < 2 ^ 32"
  shows "\<exists>bs. pack_I LittleEndian n = Inr bs \<and> length bs = 4 \<and> le32 bs = n"
proof -
  have u: "unat (of_nat (k mod 256) :: byte) = k mod 256" for k :: nat
    by (simp add: unat_of_nat take_bit_eq_mod)
  have "n div 16777216 < 256" using assms by simp
  then have "unat (of_nat (n div 16777216) :: byte) = n div 16777216"
    by (simp add: unat_of_nat take_bit_nat_eq_self)
  then show ?thesis
    using assms base256_digits [of n] by (simp add: pack_I_def Let_def le32_def u)
qed

lemma pack_I_length:
  "n < 2 ^ 32 \<Longrightarrow> \<exists>bs. pack_I host n = Inr bs \<and> length bs = 4"
  by (cases host) (simp_all add: pack_I_def Let_def)

lemma pack_I_big_endian:
  "pack_I LittleEndian n = Inr bs \<Longrightarrow> pack_I BigEndian n = Inr (rev bs)"
  by (auto simp: pack_I_def Let_def split: if_splits)

lemma save_binary_texture_file:
  assumes "pack_I host (length data) = Inr bs"
  shows "save_binary_texture host data = Inr (bytes_of_ascii ''CN3D'' @ bs @ tobytes data)"
  using assms by (simp add: save_binary_texture_def f_write_def)

lemma save_binary_texture_cube:
  assumes "is_cube n data" and "n < 2 ^ 32"
  shows "\<exists>bs. save_binary_texture host data = Inr (bytes_of_ascii ''CN3D'' @ bs @ tobytes data)
     \<and> pack_I host n = Inr bs \<and> length bs = 4"
proof -
  from assms(1) have len: "length data = n" by (simp add: is_cube_def)
  from pack_I_length [OF assms(2)] obtain bs
    where bs: "pack_I host n = Inr bs" "length bs = 4" by blast
  have "save_binary_texture host data = Inr (bytes_of_ascii ''CN3D'' @ bs @ tobytes data)"
    using bs(1) len by (simp add: save_binary_texture_file)
  with bs show ?thesis by blast
qed

lemma magic_bytes: "bytes_of_ascii ''CN3D'' = [0x43, 0x4E, 0x33, 0x44]"
  by (simp add: bytes_of_ascii_def)

lemma pack_I_unpack_I:
  assumes "n < 2 ^ 32"
  shows "\<exists>bs. pack_I host n = Inr bs \<and> length bs = 4 \<and> unpack_I host bs = n"
proof -
  from pack_I_le32 [OF assms] obtain bs where
    bs: "pack_I LittleEndian n = Inr bs" "length bs = 4" "le32 bs = n" by blast
  show ?thesis
  proof (cases host)
    case LittleEndian
    with bs show ?thesis by (simp add: unpack_I_def)
  next
    case BigEndian
    with bs pack_I_big_endian [OF bs(1)] show ?thesis by (simp add: unpack_I_def)
  qed
qed

text \<open>
  Claim C2, as the code has it. Serialising a volume of side \<open>n\<close> gives the four ASCII bytes
  \<open>CN3D\<close>, then \<open>n\<close> as a four-byte unsigned integer in the byte order of the machine that
  runs the script (\<open>struct.pack('I', size)\<close> has no byte-order prefix), then the \<open>n ^ 3\<close>
  payload bytes: \<open>8 + n ^ 3\<close> bytes in all, on either kind of machine. The instance below is
  the volume of side 4 on a little-endian machine: 72 bytes, with the size bytes 4, 0, 0, 0.
\<close>

theorem save_binary_texture_layout:
  assumes "is_cube n data" and "n < 2 ^ 32"
  shows "\<exists>out. save_binary_texture host data = Inr out
     \<and> take 4 out = bytes_of_ascii ''CN3D''
     \<and> take 4 out = [0x43, 0x4E, 0x33, 0x44]
     \<and> pack_I host n = Inr (take 4 (drop 4 out))
     \<and> unpack_I host (take 4 (drop 4 out)) = n
     \<and> drop 8 out = tobytes data
     \<and> length (drop 8 out) = n ^ 3
     \<and> length out = 8 + n ^ 3"
proof -
  from assms(1) have len: "length data = n" by (simp add: is_cube_def)
  from pack_I_unpack_I [OF assms(2)] obtain bs where
    bs: "pack_I host n = Inr bs" "length bs = 4" "unpack_I host bs = n" by blast
  have "save_binary_texture host data = Inr (bytes_of_ascii ''CN3D'' @ bs @ tobytes data)"
    using bs(1) len by (simp add: save_binary_texture_file)
  with bs show ?thesis using magic_bytes tobytes_length [OF assms(1)] by simp
qed

theorem save_binary_texture_layout_witness:
  "\<exists>out. save_binary_texture LittleEndian (replicate 4 (replicate 4 (replicate 4 0))) = Inr out
     \<and> take 4 out = [0x43, 0x4E, 0x33, 0x44]
     \<and> take 4 (drop 4 out) = [4, 0, 0, 0]
     \<and> unpack_I LittleEndian (take 4 (drop 4 out)) = 4
     \<and> length out = 72"
proof -
  have c: "is_cube 4 (replicate 4 (replicate 4 (replicate 4 0)))"
    by (simp add: is_cube_def list_all_iff)
  have p: "pack_I LittleEndian 4 = Inr [4, 0, 0, 0]" by (simp add: pack_I_def)
  from save_binary_texture_layout [OF c, of LittleEndian] p show ?thesis by auto
qed

text \<open>
  Claim C2 with the size always little-endian fails: on a big-endian machine the volume of
  side 4 is written with the size bytes 0, 0, 0, 4, which read as a little-endian integer
  are 67108864, not 4.
\<close>

theorem save_binary_texture_big_endian_counterexample:
  "save_binary_texture BigEndian (replicate 4 (replicate 4 (replicate 4 0)))
     = Inr ([0x43, 0x4E, 0x33, 0x44] @ [0, 0, 0, 4]
            @ tobytes (replicate 4 (replicate 4 (replicate 4 0))))
   \<and> le32 [0, 0, 0, 4] = 67108864
   \<and> le32 [0, 0, 0, 4] \<noteq> 4"
proof -
  have "length (replicate 4 (replicate 4 (replicate 4 (0 :: byte)))) = 4" by simp
  moreover have "pack_I BigEndian 4 = Inr [0, 0, 0, 4]" by (simp add: pack_I_def)
  ultimately have "save_binary_texture BigEndian (replicate 4 (replicate 4 (replicate 4 0)))
     = Inr (bytes_of_ascii ''CN3D'' @ [0, 0, 0, 4]
            @ tobytes (replicate 4 (replicate 4 (replicate 4 0))))"
    by (simp only: save_binary_texture_file)
  moreover have "le32 [0, 0, 0, 4] = 67108864" by (simp add: le32_def)
  ultimately show ?thesis by (simp only: magic_bytes) simp
qed

lemma generate_3d_noise_ok:
  assumes "n * n * n div 20 \<noteq> 0"
  shows "generate_3d_noise n =
    Inr (map (\<lambda>z. map (\<lambda>y. map (\<lambda>x. voxel_byte n x y z) [0..<n]) [0..<n]) [0..<n])"
  using assms by (simp add: generate_3d_noise_def Let_def)

lemma generated_nth:
  "x < n \<Longrightarrow> y < n \<Longrightarrow> z < n \<Longrightarrow>
   map (\<lambda>z. map (\<lambda>y. map (\<lambda>x. f x y z) [0..<n]) [0..<n]) [0..<n] ! z ! y ! x = f x y z"
  by simp

lemma generate_3d_noise_voxels:
  assumes "n * n * n div 20 \<noteq> 0" and "n < 2 ^ 32" and "x < n" and "y < n" and "z < n"
  shows "\<exists>vol out. generate_3d_noise n = Inr vol
     \<and> vol ! z ! y ! x = voxel_byte n x y z
     \<and> tobytes vol ! (x + y * n + z * n * n) = vol ! z ! y ! x
     \<and> save_binary_texture host vol = Inr out
     \<and> out ! (8 + (x + y * n + z * n * n)) = vol ! z ! y ! x"
proof -
  define vol where
    "vol = map (\<lambda>z. map (\<lambda>y. map (\<lambda>x. voxel_byte n x y z) [0..<n]) [0..<n]) [0..<n]"
  have g: "generate_3d_noise n = Inr vol"
    unfolding vol_def using assms(1) by (rule generate_3d_noise_ok)
  have c: "is_cube n vol" unfolding vol_def by (rule is_cube_generated)
  have v: "vol ! z ! y ! x = voxel_byte n x y z"
    unfolding vol_def using assms(3-5) by (rule generated_nth)
  note t = tobytes_nth [OF c assms(3-5)]
  from save_binary_texture_cube [OF c assms(2)] obtain bs where
    bs: "save_binary_texture host vol = Inr (bytes_of_ascii ''CN3D'' @ bs @ tobytes vol)"
      "length bs = 4" by blast
  define out where "out = bytes_of_ascii ''CN3D'' @ bs @ tobytes vol"
  have f: "save_binary_texture host vol = Inr out" "drop 8 out = tobytes vol"
      "length (drop 8 out) = n ^ 3"
    using bs tobytes_length [OF c] by (simp_all add: out_def magic_bytes)
  have "z * n + y < n * n"
  proof -
    have "z * n + y < z * n + n" using assms by simp
    also have "\<dots> = (z + 1) * n" by simp
    also have "\<dots> \<le> n * n" using assms by (simp del: mult_Suc)
    finally show ?thesis .
  qed
  then have "(z * n + y) * n + x < n * n * n"
  proof -
    assume a: "z * n + y < n * n"
    have "(z * n + y) * n + x < (z * n + y) * n + n" using assms by simp
    also have "\<dots> = (z * n + y + 1) * n" by simp
    also have "\<dots> \<le> (n * n) * n" using a by (intro mult_right_mono) simp_all
    finally show ?thesis .
  qed
  moreover have "(z * n + y) * n + x = x + y * n + z * n * n" by (simp add: algebra_simps)
  moreover have "n ^ 3 = n * n * n" by (simp add: power3_eq_cube)
  ultimately have "x + y * n + z * n * n < length (drop 8 out)"
    by (simp only: f(3))
  then have "drop 8 out ! (x + y * n + z * n * n) = out ! (8 + (x + y * n + z * n * n))"
    by (subst nth_drop) simp_all
  then have o: "out ! (8 + (x + y * n + z * n * n)) = vol ! z ! y ! x"
    by (simp only: f(2) t)
  show ?thesis
    by (intro exI [of _ vol] exI [of _ out] conjI) (fact g v t f(1) o)+
qed

text \<open>
  Claim C1. For the grid of side 128, the intensity stored at voxel \<open>(x, y, z)\<close> is
  \<open>int (clip (0.6 * perlin (4x/128, 4y/128, 4z/128) + 0.4 * worley (2x/128, 2y/128, 2z/128), 0, 1) * 255)\<close>
  (truncated, not rounded), and the volume is laid out with z outermost, then y, then x:
  the payload byte at offset \<open>x + y * 128 + z * 128 ^ 2\<close> (offset 8 more in the file) is the
  intensity of voxel \<open>(x, y, z)\<close>.
\<close>

theorem generate_3d_noise_128:
  assumes "x < 128" and "y < 128" and "z < 128"
  shows "\<exists>vol out. generate_3d_noise 128 = Inr vol
     \<and> uint (vol ! z ! y ! x) =
         py_int (clip (0.6 * perlin_noise_3d (4 * real x / 128) (4 * real y / 128) (4 * real z / 128)
                     + 0.4 * worley_noise_3d (2 * real x / 128) (2 * real y / 128) (2 * real z / 128))
                   0 1 * 255)
     \<and> tobytes vol ! (x + y * 128 + z * 128 ^ 2) = vol ! z ! y ! x
     \<and> save_binary_texture host vol = Inr out
     \<and> out ! (8 + (x + y * 128 + z * 128 ^ 2)) = vol ! z ! y ! x"
proof -
  have "(128::nat) * 128 * 128 div 20 \<noteq> 0" "(128::nat) < 2 ^ 32" by simp_all
  from generate_3d_noise_voxels [OF this assms] obtain vol out where
    h: "generate_3d_noise 128 = Inr vol" "vol ! z ! y ! x = voxel_byte 128 x y z"
      "tobytes vol ! (x + y * 128 + z * 128 * 128) = vol ! z ! y ! x"
      "save_binary_texture host vol = Inr out"
      "out ! (8 + (x + y * 128 + z * 128 * 128)) = vol ! z ! y ! x"
    by blast
  have e: "z * (128::nat) ^ 2 = z * 128 * 128" by (simp add: power2_eq_square)
  have q: "uint (voxel_byte 128 x y z) =
         py_int (clip (0.6 * perlin_noise_3d (4 * real x / 128) (4 * real y / 128) (4 * real z / 128)
                     + 0.4 * worley_noise_3d (2 * real x / 128) (2 * real y / 128) (2 * real z / 128))
                   0 1 * 255)"
    unfolding uint_voxel_byte
    by (simp add: voxel_noise_def voxel_blend_def Let_def mult.commute)
  show ?thesis
    unfolding e using h q by (intro exI [of _ vol] exI [of _ out]) (simp only: simp_thms)
qed

theorem generate_3d_noise_128_witness:
  "\<exists>vol out. generate_3d_noise 128 = Inr vol
     \<and> uint (vol ! 3 ! 2 ! 1) =
         py_int (clip (0.6 * perlin_noise_3d (4 * real 1 / 128) (4 * real 2 / 128) (4 * real 3 / 128)
                     + 0.4 * worley_noise_3d (2 * real 1 / 128) (2 * real 2 / 128) (2 * real 3 / 128))
                   0 1 * 255)
     \<and> tobytes vol ! (1 + 2 * 128 + 3 * 128 ^ 2) = vol ! 3 ! 2 ! 1
     \<and> save_binary_texture LittleEndian vol = Inr out
     \<and> out ! (8 + (1 + 2 * 128 + 3 * 128 ^ 2)) = vol ! 3 ! 2 ! 1"
  by (rule generate_3d_noise_128 [where x = 1 and y = 2 and z = 3]) simp_all

section \<open>Properties of the 2D noise and of image rendering\<close>

text \<open>
  The gradient array of an octave has \<open>grid_size + 2\<close> rows and columns. The four indices
  a pixel reads lie inside it, so no read of \<open>gradients\<close> raises \<open>IndexError\<close> and the
  grid of draws can be a function of the octave, the row and the column.
\<close>

lemma gradient_index_in_range:
  assumes "i < n"
  shows "0 \<le> py_int (real i / real n * of_int (grid_size width scale octave))"
    and "py_int (real i / real n * of_int (grid_size width scale octave)) + 1
           < grid_size width scale octave + 2"
proof -
  define gs where "gs = grid_size width scale octave"
  define t where "t = real i / real n"
  have gs: "2 \<le> gs" by (simp add: gs_def grid_size_def Let_def)
  have t: "0 \<le> t" "t < 1" using assms(1) by (simp_all add: t_def)
  have p: "0 \<le> t * of_int gs" using t gs by simp
  have "t * real_of_int gs < 1 * real_of_int gs"
    using t gs by (intro mult_strict_right_mono) simp_all
  then have u: "t * of_int gs < of_int gs" by simp
  have i0: "py_int (t * of_int gs) = \<lfloor>t * of_int gs\<rfloor>" using p by (simp add: py_int_def)
  from p show "0 \<le> py_int (real i / real n * of_int (grid_size width scale octave))"
    unfolding gs_def [symmetric] t_def [symmetric] i0 by simp
  from u have "\<lfloor>t * of_int gs\<rfloor> < gs" by (simp add: floor_less_iff)
  then show "py_int (real i / real n * of_int (grid_size width scale octave)) + 1
           < grid_size width scale octave + 2"
    unfolding gs_def [symmetric] t_def [symmetric] i0 by simp
qed

lemma upt_one: "[0..<1] = [0]"
  by (simp add: upt_rec)

lemma sequence_Inr_iff:
  "sequence rs = Inr vs \<longleftrightarrow> rs = map Inr vs"
proof (induction rs arbitrary: vs)
  case Nil
  then show ?case by auto
next
  case (Cons r rs)
  show ?case
  proof (cases r)
    case (Inl e)
    then show ?thesis by (cases vs) auto
  next
    case (Inr v)
    show ?thesis
    proof (cases "sequence rs")
      case (Inl e)
      with Inr Cons.IH show ?thesis by (cases vs) auto
    next
      case r2: (Inr ws)
      with Inr Cons.IH [of ws] show ?thesis by (cases vs) auto
    qed
  qed
qed

lemma map_upt_eq_nth:
  assumes "map f [0..<n] = map g ys" and "i < n"
  shows "length ys = n" and "f i = g (ys ! i)"
proof -
  from assms(1) have "length (map f [0..<n]) = length (map g ys)" by (rule arg_cong)
  then show len: "length ys = n" by simp
  from assms(1) have "map f [0..<n] ! i = map g ys ! i" by (rule arg_cong)
  with assms(2) len show "f i = g (ys ! i)" by simp
qed

lemma render_image_nth:
  assumes "render_image w h px = Inr img" and "y < h" and "x < w"
  shows "px y x = Inr (img ! y ! x)"
proof -
  from assms(1) have rows: "map (\<lambda>y. sequence (map (\<lambda>x. px y x) [0..<w])) [0..<h] = map Inr img"
    by (simp add: render_image_def sequence_Inr_iff)
  from map_upt_eq_nth(2) [OF rows assms(2)]
  have "map (\<lambda>x. px y x) [0..<w] = map Inr (img ! y)"
    by (simp add: sequence_Inr_iff)
  from map_upt_eq_nth(2) [OF this assms(3)] show ?thesis .
qed

lemma render_image_total:
  assumes "\<And>y x. y < h \<Longrightarrow> x < w \<Longrightarrow> \<exists>p. px y x = Inr p"
  shows "\<exists>img. render_image w h px = Inr img"
proof -
  define img where "img = map (\<lambda>y. map (\<lambda>x. projr (px y x)) [0..<w]) [0..<h]"
  have "px y x = Inr (projr (px y x))" if "y < h" "x < w" for y x
    using assms [OF that] by auto
  then have "map (\<lambda>y. sequence (map (\<lambda>x. px y x) [0..<w])) [0..<h] = map Inr img"
    by (auto simp add: img_def sequence_Inr_iff comp_def)
  then show ?thesis by (auto simp: render_image_def sequence_Inr_iff)
qed

lemma perlin_noise_2d_nth:
  assumes "perlin_noise_2d w h sc oc rnd = Inr noise" and "y < h" and "x < w"
  shows "noise ! y ! x = NaN \<or> (\<exists>v. noise ! y ! x = Fin v \<and> 0 \<le> v \<and> v \<le> 1)"
proof -
  define field where
    "field = map (\<lambda>y. map (\<lambda>x. raw_noise w h sc oc rnd y x) [0..<w]) [0..<h]"
  define lo where "lo = Min (set (concat field))"
  define hi where "hi = Max (set (concat field))"
  define r where "r = raw_noise w h sc oc rnd y x"
  from assms(1) have noise: "noise = map (map (\<lambda>v. np_div (v - lo) (hi - lo))) field"
    by (simp add: perlin_noise_2d_def Let_def field_def lo_def hi_def split: if_splits)
  have nth: "noise ! y ! x = np_div (r - lo) (hi - lo)"
    using assms(2,3) by (simp add: noise field_def r_def)
  have "r \<in> set (concat field)"
    using assms(2,3) by (auto simp: field_def r_def intro!: bexI [of _ y])
  then have "lo \<le> r" "r \<le> hi" by (simp_all add: lo_def hi_def)
  show ?thesis
  proof (cases "hi - lo = 0")
    case True
    then show ?thesis by (simp add: nth np_div_def)
  next
    case False
    with \<open>lo \<le> r\<close> \<open>r \<le> hi\<close> have "0 < hi - lo" by simp
    with \<open>lo \<le> r\<close> \<open>r \<le> hi\<close> have "0 \<le> (r - lo) / (hi - lo)" "(r - lo) / (hi - lo) \<le> 1"
      by simp_all
    with False show ?thesis by (simp add: nth np_div_def)
  qed
qed

lemma rgb_of_Inr:
  "rgb_of a b c = Inr p \<longleftrightarrow> (\<exists>r g bl. a = Inr r \<and> b = Inr g \<and> c = Inr bl \<and> p = (r, g, bl))"
  by (cases a; cases b; cases c) (auto simp: rgb_of_def)

lemma py_int_clip_range: "0 \<le> py_int (clip r 0 255) \<and> py_int (clip r 0 255) \<le> 255"
proof -
  have "0 \<le> clip r 0 255" "clip r 0 255 \<le> 255" using clip_range [of 0 255 r] by simp_all
  then show ?thesis by (simp add: py_int_def floor_le_iff le_floor_iff)
qed

lemma to_channel_Inr:
  "to_channel v = Inr c \<longleftrightarrow> (\<exists>r. v = Fin r \<and> c = word_of_int (py_int (clip r 0 255)))"
  by (cases v) (auto simp: to_channel_def)

lemma uint_channel: "uint (word_of_int (py_int (clip r 0 255)) :: byte) = py_int (clip r 0 255)"
  using py_int_clip_range [of r] by (simp add: uint_byte_of_int)

lemma nf_map_Fin: "nf_map f v = Fin r \<longleftrightarrow> (\<exists>n. v = Fin n \<and> r = f n)"
  by (cases v) auto

lemma nf_map2_Fin: "nf_map2 f a b = Fin r \<longleftrightarrow> (\<exists>x y. a = Fin x \<and> b = Fin y \<and> r = f x y)"
  by (cases a; cases b) auto


section \<open>The ore compositor\<close>









section \<open>Evaluation on a 2 by 1 tile\<close>

lemma interpolate_zero: "interpolate a b 0 = a"
  by (simp add: interpolate_def)

lemma grid_size_two:
  assumes "1 / 10 \<le> scale"
  shows "grid_size 2 scale octave = 2"
proof -
  define q where "q = real 2 / (10 * scale * 2 ^ octave)"
  have "(1::real) \<le> 2 ^ octave" by simp
  moreover have "1 \<le> 10 * scale" using assms by simp
  ultimately have "1 * 1 \<le> (10 * scale) * 2 ^ octave" by (intro mult_mono) simp_all
  then have "1 \<le> 10 * scale * 2 ^ octave" by simp
  then have "q \<le> 2" "0 \<le> q" by (simp_all add: q_def divide_le_eq)
  then have "py_int q \<le> 2" by (simp add: py_int_def floor_le_iff)
  then have "max 2 (py_int q) = 2" by simp
  then show ?thesis unfolding grid_size_def Let_def q_def .
qed

lemma octave_sample_two_by_one:
  assumes "1 / 10 \<le> scale" and "x < 2"
  shows "octave_sample 2 1 scale rnd octave 0 x = (rnd octave 0 x * 2 - 1) * (1 / 2 ^ octave)"
proof -
  have "real x / real 2 * real_of_int 2 = real x" by simp
  moreover have "py_int (real x) = int x" by (simp add: py_int_def)
  ultimately show ?thesis
    unfolding octave_sample_def Let_def grid_size_two [OF assms(1)]
    by (simp add: interpolate_zero py_int_def)
qed

lemma raw_noise_example:
  assumes "1 / 10 \<le> scale"
  shows "raw_noise 2 1 scale octaves example_grid 0 1 = 0"
    and "0 < octaves \<Longrightarrow> raw_noise 2 1 scale octaves example_grid 0 0 < 0"
proof -
  have z: "foldl (\<lambda>acc octave. acc + octave_sample 2 1 scale example_grid octave 0 1) a os = a"
    for a os
    by (induction os arbitrary: a)
      (simp_all add: octave_sample_two_by_one [OF assms] example_grid_def del: One_nat_def)
  show "raw_noise 2 1 scale octaves example_grid 0 1 = 0"
    unfolding raw_noise_def by (rule z)
  have s: "octave_sample 2 1 scale example_grid octave 0 0 < 0" for octave
    by (simp add: octave_sample_two_by_one [OF assms] example_grid_def del: One_nat_def)
  have n: "foldl (\<lambda>acc octave. acc + octave_sample 2 1 scale example_grid octave 0 0) a os \<le> a"
    for a os
  proof (induction os arbitrary: a)
    case Nil
    then show ?case by simp
  next
    case (Cons octave os)
    have "foldl (\<lambda>acc octave. acc + octave_sample 2 1 scale example_grid octave 0 0)
        (a + octave_sample 2 1 scale example_grid octave 0 0) os
        \<le> a + octave_sample 2 1 scale example_grid octave 0 0" by (rule Cons.IH)
    with s [of octave] show ?case by simp
  qed
  show "raw_noise 2 1 scale octaves example_grid 0 0 < 0" if "0 < octaves"
  proof -
    from that have "[0..<octaves] = 0 # [1..<octaves]" by (simp add: upt_rec)
    then have "raw_noise 2 1 scale octaves example_grid 0 0
      = foldl (\<lambda>acc octave. acc + octave_sample 2 1 scale example_grid octave 0 0)
          (0 + octave_sample 2 1 scale example_grid 0 0 0) [1..<octaves]"
      by (simp add: raw_noise_def)
    also have "\<dots> \<le> 0 + octave_sample 2 1 scale example_grid 0 0 0" by (rule n)
    finally show ?thesis using s [of 0] by simp
  qed
qed

lemma upt_two: "[0..<2] = [0, 1]"
  by (simp add: upt_rec)

lemma perlin_noise_2d_example:
  assumes "1 / 10 \<le> scale" and "0 < octaves"
  shows "perlin_noise_2d 2 1 scale octaves example_grid = Inr [[Fin 0, Fin 1]]"
proof -
  define a where "a = raw_noise 2 1 scale octaves example_grid 0 0"
  have a: "a < 0" unfolding a_def using assms by (rule raw_noise_example(2))
  have b: "raw_noise 2 1 scale octaves example_grid 0 1 = 0"
    using assms(1) by (rule raw_noise_example(1))
  have f: "map (\<lambda>y. map (\<lambda>x. raw_noise 2 1 scale octaves example_grid y x) [0..<2]) [0..<1]
      = [[a, 0]]"
    by (simp add: upt_two upt_one a_def b del: One_nat_def)
  have "scale \<noteq> 0" using assms(1) by auto
  then show ?thesis
    unfolding perlin_noise_2d_def Let_def f using a
    by (simp add: np_div_def min_def max_def)
qed

lemma render_two_by_one:
  "render_image 2 1 px = sequence [sequence [px 0 0, px 0 1]]"
  by (simp add: render_image_def upt_two upt_one del: One_nat_def)

lemma nth_second: "[a, b] ! 1 = b"
  by simp

lemma example_draws_grids:
  "np_noise example_draws = example_grid" "np_noise2 example_draws = example_grid"
  by (simp_all add: example_draws_def)

lemmas example_eval = example_draws_grids sum.case render_two_by_one nth_Cons_0 nth_second
  sequence.simps

lemma fluid_example:
  "generate_fluid_pattern 2 1 (40, 80, 180) 20 0.2 False example_draws
     = Inr [[(26, 62, 152), (58, 106, 226)]]"
proof -
  have n: "perlin_noise_2d 2 1 0.2 4 example_grid = Inr [[Fin 0, Fin 1]]"
    and w: "perlin_noise_2d 2 1 0.4 2 example_grid = Inr [[Fin 0, Fin 1]]"
    by (rule perlin_noise_2d_example; simp)+
  have p0: "fluid_pixel (40, 80, 180) 20 False (Fin 0) (Fin 0) = Inr (26, 62, 152)"
    by (simp add: fluid_pixel_def fluid_brightness_def to_channel_def rgb_of_def clip_def py_int_def)
  have p1: "fluid_pixel (40, 80, 180) 20 False (Fin 1) (Fin 1) = Inr (58, 106, 226)"
    by (simp add: fluid_pixel_def fluid_brightness_def to_channel_def rgb_of_def clip_def py_int_def)
  show ?thesis
    by (simp only: generate_fluid_pattern_def example_eval n w p0 p1)
qed

lemma water_example:
  "generate_texture ''water'' water_cfg 2 1 example_draws
     = Inr [[(26, 62, 152), (58, 106, 226)]]"
proof -
  have "generate_texture ''water'' water_cfg 2 1 example_draws
      = generate_fluid_pattern 2 1 (40, 80, 180) 20 0.2 False example_draws"
    by (simp add: generate_texture_def water_cfg_def)
  then show ?thesis by (simp only: fluid_example)
qed

lemma metallic_example:
  "generate_metallic_pattern 2 1 (180, 180, 190) 20 0.15 (160, 140, 130) example_draws
     = Inr [[(152, 152, 161), (192, 168, 156)]]"
proof -
  have n: "perlin_noise_2d 2 1 0.15 3 example_grid = Inr [[Fin 0, Fin 1]]"
    and w: "perlin_noise_2d 2 1 0.15 2 example_grid = Inr [[Fin 0, Fin 1]]"
    by (rule perlin_noise_2d_example; simp)+
  have p0: "metallic_pixel (180, 180, 190) 20 (160, 140, 130) (Fin 0) (Fin 0) = Inr (152, 152, 161)"
    by (simp add: metallic_pixel_def metallic_brightness_def to_channel_def rgb_of_def clip_def py_int_def)
  have p1: "metallic_pixel (180, 180, 190) 20 (160, 140, 130) (Fin 1) (Fin 1) = Inr (192, 168, 156)"
    by (simp add: metallic_pixel_def metallic_brightness_def to_channel_def rgb_of_def clip_def py_int_def)
  show ?thesis
    by (simp only: generate_metallic_pattern_def example_eval n w p0 p1)
qed

lemma iron_block_example:
  "generate_texture ''iron_block'' iron_block_cfg 2 1 example_draws
     = Inr [[(152, 152, 161), (192, 168, 156)]]"
proof -
  have "generate_texture ''iron_block'' iron_block_cfg 2 1 example_draws
      = generate_metallic_pattern 2 1 (180, 180, 190) 20 0.15 (160, 140, 130) example_draws"
    by (simp add: generate_texture_def iron_block_cfg_def)
  then show ?thesis by (simp only: metallic_example)
qed




section \<open>The metallic and fluid compositors\<close>

lemma metallic_pixel_law:
  assumes gen: "generate_metallic_pattern w h (c0, c1, c2) v sc oc rnd = Inr img"
    and noise: "perlin_noise_2d w h sc 3 (np_noise rnd) = Inr noise"
    and vein: "perlin_noise_2d w h 0.15 2 (np_noise2 rnd) = Inr vein_noise"
    and y: "y < h" and x: "x < w"
    and low: "\<not> nf_gt (vein_noise ! y ! x) 0.6"
  shows "\<exists>n r g b. noise ! y ! x = Fin n \<and> 0 \<le> n \<and> n \<le> 1 \<and> img ! y ! x = (r, g, b)
    \<and> uint r = py_int (clip (of_int c0 * metallic_brightness (Fin n) + (n - 0.5) * of_int v) 0 255)
    \<and> uint g = py_int (clip (of_int c1 * metallic_brightness (Fin n) + (n - 0.5) * of_int v) 0 255)
    \<and> uint b = py_int (clip (of_int c2 * metallic_brightness (Fin n) + (n - 0.5) * of_int v) 0 255)"
proof -
  from gen have "render_image w h (\<lambda>y x. metallic_pixel (c0, c1, c2) v oc
      (noise ! y ! x) (vein_noise ! y ! x)) = Inr img"
    by (simp only: generate_metallic_pattern_def noise vein sum.case)
  from render_image_nth [OF this y x] low
  obtain n r g b where n: "noise ! y ! x = Fin n" and p: "img ! y ! x = (r, g, b)"
    and c: "r = word_of_int (py_int (clip (of_int c0 * metallic_brightness (Fin n) + (n - 0.5) * of_int v) 0 255))"
      "g = word_of_int (py_int (clip (of_int c1 * metallic_brightness (Fin n) + (n - 0.5) * of_int v) 0 255))"
      "b = word_of_int (py_int (clip (of_int c2 * metallic_brightness (Fin n) + (n - 0.5) * of_int v) 0 255))"
    by (auto simp: metallic_pixel_def Let_def rgb_of_Inr to_channel_Inr nf_map_Fin)
  from perlin_noise_2d_nth [OF noise y x] n have "0 \<le> n" "n \<le> 1" by simp_all
  moreover have
    "uint r = py_int (clip (of_int c0 * metallic_brightness (Fin n) + (n - 0.5) * of_int v) 0 255)"
    "uint g = py_int (clip (of_int c1 * metallic_brightness (Fin n) + (n - 0.5) * of_int v) 0 255)"
    "uint b = py_int (clip (of_int c2 * metallic_brightness (Fin n) + (n - 0.5) * of_int v) 0 255)"
    unfolding c by (rule uint_channel)+
  ultimately show ?thesis using n p by blast
qed

lemma fluid_pixel_law:
  assumes gen: "generate_fluid_pattern w h (c0, c1, c2) v sc gl rnd = Inr img"
    and noise: "perlin_noise_2d w h sc 4 (np_noise rnd) = Inr noise"
    and wave: "perlin_noise_2d w h 0.4 2 (np_noise2 rnd) = Inr wave_noise"
    and y: "y < h" and x: "x < w"
  shows "\<exists>n wv r g b. noise ! y ! x = Fin n \<and> 0 \<le> n \<and> n \<le> 1
    \<and> wave_noise ! y ! x = Fin wv \<and> 0 \<le> wv \<and> wv \<le> 1 \<and> img ! y ! x = (r, g, b)
    \<and> uint r = py_int (clip (of_int c0 * fluid_brightness gl wv n + (n - 0.5) * of_int v) 0 255)
    \<and> uint g = py_int (clip (of_int c1 * fluid_brightness gl wv n + (n - 0.5) * of_int v) 0 255)
    \<and> uint b = py_int (clip (of_int c2 * fluid_brightness gl wv n + (n - 0.5) * of_int v) 0 255)"
proof -
  from gen have "render_image w h (\<lambda>y x. fluid_pixel (c0, c1, c2) v gl
      (noise ! y ! x) (wave_noise ! y ! x)) = Inr img"
    by (simp only: generate_fluid_pattern_def noise wave sum.case)
  from render_image_nth [OF this y x]
  obtain n wv r g b where n: "noise ! y ! x = Fin n" and wv: "wave_noise ! y ! x = Fin wv"
    and p: "img ! y ! x = (r, g, b)"
    and c: "r = word_of_int (py_int (clip (of_int c0 * fluid_brightness gl wv n + (n - 0.5) * of_int v) 0 255))"
      "g = word_of_int (py_int (clip (of_int c1 * fluid_brightness gl wv n + (n - 0.5) * of_int v) 0 255))"
      "b = word_of_int (py_int (clip (of_int c2 * fluid_brightness gl wv n + (n - 0.5) * of_int v) 0 255))"
    by (auto simp: fluid_pixel_def rgb_of_Inr to_channel_Inr nf_map2_Fin)
  from perlin_noise_2d_nth [OF noise y x] n have "0 \<le> n" "n \<le> 1" by simp_all
  moreover from perlin_noise_2d_nth [OF wave y x] wv have "0 \<le> wv" "wv \<le> 1" by simp_all
  moreover have
    "uint r = py_int (clip (of_int c0 * fluid_brightness gl wv n + (n - 0.5) * of_int v) 0 255)"
    "uint g = py_int (clip (of_int c1 * fluid_brightness gl wv n + (n - 0.5) * of_int v) 0 255)"
    "uint b = py_int (clip (of_int c2 * fluid_brightness gl wv n + (n - 0.5) * of_int v) 0 255)"
    unfolding c by (rule uint_channel)+
  ultimately show ?thesis using n wv p by blast
qed

text \<open>
  Claim C3, as the code has it. In the metallic compositor, at every pixel whose vein sample
  does not exceed 0.6, and in the fluid compositor at every pixel, each stored channel is
  \<open>int (clip (baseColor * brightness + (n - 0.5) * variation, 0, 255))\<close>: the variation term is
  added to the brightness-scaled base colour without the factor 2 of the default law.
\<close>

theorem metallic_fluid_additive_law:
  "(generate_metallic_pattern w h (c0, c1, c2) v sc oc rnd = Inr img
      \<and> perlin_noise_2d w h sc 3 (np_noise rnd) = Inr noise
      \<and> perlin_noise_2d w h 0.15 2 (np_noise2 rnd) = Inr vein_noise
      \<and> y < h \<and> x < w \<and> \<not> nf_gt (vein_noise ! y ! x) 0.6
    \<longrightarrow> (\<exists>n r g b. noise ! y ! x = Fin n \<and> 0 \<le> n \<and> n \<le> 1 \<and> img ! y ! x = (r, g, b)
      \<and> uint r = py_int (clip (of_int c0 * metallic_brightness (Fin n) + (n - 0.5) * of_int v) 0 255)
      \<and> uint g = py_int (clip (of_int c1 * metallic_brightness (Fin n) + (n - 0.5) * of_int v) 0 255)
      \<and> uint b = py_int (clip (of_int c2 * metallic_brightness (Fin n) + (n - 0.5) * of_int v) 0 255)))
   \<and> (generate_fluid_pattern w h (c0, c1, c2) v sc gl rnd = Inr img'
      \<and> perlin_noise_2d w h sc 4 (np_noise rnd) = Inr noise'
      \<and> perlin_noise_2d w h 0.4 2 (np_noise2 rnd) = Inr wave_noise
      \<and> y < h \<and> x < w
    \<longrightarrow> (\<exists>n wv r g b. noise' ! y ! x = Fin n \<and> 0 \<le> n \<and> n \<le> 1
      \<and> wave_noise ! y ! x = Fin wv \<and> 0 \<le> wv \<and> wv \<le> 1 \<and> img' ! y ! x = (r, g, b)
      \<and> uint r = py_int (clip (of_int c0 * fluid_brightness gl wv n + (n - 0.5) * of_int v) 0 255)
      \<and> uint g = py_int (clip (of_int c1 * fluid_brightness gl wv n + (n - 0.5) * of_int v) 0 255)
      \<and> uint b = py_int (clip (of_int c2 * fluid_brightness gl wv n + (n - 0.5) * of_int v) 0 255)))"
proof (intro conjI impI)
  assume "generate_metallic_pattern w h (c0, c1, c2) v sc oc rnd = Inr img
      \<and> perlin_noise_2d w h sc 3 (np_noise rnd) = Inr noise
      \<and> perlin_noise_2d w h 0.15 2 (np_noise2 rnd) = Inr vein_noise
      \<and> y < h \<and> x < w \<and> \<not> nf_gt (vein_noise ! y ! x) 0.6"
  then show "\<exists>n r g b. noise ! y ! x = Fin n \<and> 0 \<le> n \<and> n \<le> 1 \<and> img ! y ! x = (r, g, b)
      \<and> uint r = py_int (clip (of_int c0 * metallic_brightness (Fin n) + (n - 0.5) * of_int v) 0 255)
      \<and> uint g = py_int (clip (of_int c1 * metallic_brightness (Fin n) + (n - 0.5) * of_int v) 0 255)
      \<and> uint b = py_int (clip (of_int c2 * metallic_brightness (Fin n) + (n - 0.5) * of_int v) 0 255)"
    by (elim conjE) (rule metallic_pixel_law)
next
  assume "generate_fluid_pattern w h (c0, c1, c2) v sc gl rnd = Inr img'
      \<and> perlin_noise_2d w h sc 4 (np_noise rnd) = Inr noise'
      \<and> perlin_noise_2d w h 0.4 2 (np_noise2 rnd) = Inr wave_noise
      \<and> y < h \<and> x < w"
  then show "\<exists>n wv r g b. noise' ! y ! x = Fin n \<and> 0 \<le> n \<and> n \<le> 1
      \<and> wave_noise ! y ! x = Fin wv \<and> 0 \<le> wv \<and> wv \<le> 1 \<and> img' ! y ! x = (r, g, b)
      \<and> uint r = py_int (clip (of_int c0 * fluid_brightness gl wv n + (n - 0.5) * of_int v) 0 255)
      \<and> uint g = py_int (clip (of_int c1 * fluid_brightness gl wv n + (n - 0.5) * of_int v) 0 255)
      \<and> uint b = py_int (clip (of_int c2 * fluid_brightness gl wv n + (n - 0.5) * of_int v) 0 255)"
    by (elim conjE) (rule fluid_pixel_law)
qed

text \<open>
  Claim C3 with the factor 2 fails. For the water entry, the pixel with noise sample 1 and wave
  sample 1 has red channel 58, where the formula with factor 2 gives 68; for the iron entry, the
  pixel with noise sample 0 and vein sample 0 has red channel 152, where it gives 142.
\<close>

theorem metallic_fluid_factor_two_counterexample:
  "generate_texture ''water'' water_cfg 2 1 example_draws
      = Inr [[(26, 62, 152), (58, 106, 226)]]
   \<and> perlin_noise_2d 2 1 (noise_scale water_cfg) 4 (np_noise example_draws)
      = Inr [[Fin 0, Fin 1]]
   \<and> perlin_noise_2d 2 1 0.4 2 (np_noise2 example_draws) = Inr [[Fin 0, Fin 1]]
   \<and> real_of_int (uint (58 :: byte))
      \<noteq> clip (40 * fluid_brightness False 1 1 + (1 - 0.5) * 20 * 2) 0 255
   \<and> generate_texture ''iron_block'' iron_block_cfg 2 1 example_draws
      = Inr [[(152, 152, 161), (192, 168, 156)]]
   \<and> perlin_noise_2d 2 1 (noise_scale iron_block_cfg) 3 (np_noise example_draws)
      = Inr [[Fin 0, Fin 1]]
   \<and> perlin_noise_2d 2 1 0.15 2 (np_noise2 example_draws) = Inr [[Fin 0, Fin 1]]
   \<and> \<not> nf_gt (Fin 0) 0.6
   \<and> real_of_int (uint (152 :: byte))
      \<noteq> clip (180 * metallic_brightness (Fin 0) + (0 - 0.5) * 20 * 2) 0 255"
proof -
  have "perlin_noise_2d 2 1 (noise_scale water_cfg) 4 (np_noise example_draws)
      = Inr [[Fin 0, Fin 1]]"
    unfolding example_draws_grids by (rule perlin_noise_2d_example) (simp_all add: water_cfg_def)
  moreover have "perlin_noise_2d 2 1 0.4 2 (np_noise2 example_draws) = Inr [[Fin 0, Fin 1]]"
    unfolding example_draws_grids by (rule perlin_noise_2d_example) simp_all
  moreover have "perlin_noise_2d 2 1 (noise_scale iron_block_cfg) 3 (np_noise example_draws)
      = Inr [[Fin 0, Fin 1]]"
    unfolding example_draws_grids
    by (rule perlin_noise_2d_example) (simp_all add: iron_block_cfg_def)
  moreover have "perlin_noise_2d 2 1 0.15 2 (np_noise2 example_draws) = Inr [[Fin 0, Fin 1]]"
    unfolding example_draws_grids by (rule perlin_noise_2d_example) simp_all
  moreover have "real_of_int (uint (58 :: byte))
      \<noteq> clip (40 * fluid_brightness False 1 1 + (1 - 0.5) * 20 * 2) 0 255"
    by (simp add: fluid_brightness_def clip_def)
  moreover have "real_of_int (uint (152 :: byte))
      \<noteq> clip (180 * metallic_brightness (Fin 0) + (0 - 0.5) * 20 * 2) 0 255"
    by (simp add: metallic_brightness_def clip_def)
  moreover have "\<not> nf_gt (Fin 0) 0.6" by simp
  ultimately show ?thesis using water_example iron_block_example by (simp only: simp_thms)
qed

text \<open>The law at pixel (0, 0) of the iron tile and at pixel (0, 1) of the water tile.\<close>

theorem metallic_fluid_additive_law_witness:
  "(\<exists>n r g b. [[Fin 0, Fin 1]] ! 0 ! 0 = Fin n \<and> 0 \<le> n \<and> n \<le> 1
      \<and> [[(152, 152, 161), (192, 168, 156)]] ! 0 ! 0 = (r, g, b)
      \<and> uint (r :: byte) = py_int (clip (of_int 180 * metallic_brightness (Fin n) + (n - 0.5) * of_int 20) 0 255)
      \<and> uint (g :: byte) = py_int (clip (of_int 180 * metallic_brightness (Fin n) + (n - 0.5) * of_int 20) 0 255)
      \<and> uint (b :: byte) = py_int (clip (of_int 190 * metallic_brightness (Fin n) + (n - 0.5) * of_int 20) 0 255))
   \<and> (\<exists>n wv r g b. [[Fin 0, Fin 1]] ! 0 ! 1 = Fin n \<and> 0 \<le> n \<and> n \<le> 1
      \<and> [[Fin 0, Fin 1]] ! 0 ! 1 = Fin wv \<and> 0 \<le> wv \<and> wv \<le> 1
      \<and> [[(26, 62, 152), (58, 106, 226)]] ! 0 ! 1 = (r, g, b)
      \<and> uint (r :: byte) = py_int (clip (of_int 40 * fluid_brightness False wv n + (n - 0.5) * of_int 20) 0 255)
      \<and> uint (g :: byte) = py_int (clip (of_int 80 * fluid_brightness False wv n + (n - 0.5) * of_int 20) 0 255)
      \<and> uint (b :: byte) = py_int (clip (of_int 180 * fluid_brightness False wv n + (n - 0.5) * of_int 20) 0 255))"
proof (rule conjI)
  have n: "perlin_noise_2d 2 1 0.15 3 (np_noise example_draws) = Inr [[Fin 0, Fin 1]]"
    and w: "perlin_noise_2d 2 1 0.15 2 (np_noise2 example_draws) = Inr [[Fin 0, Fin 1]]"
    unfolding example_draws_grids by (rule perlin_noise_2d_example; simp)+
  have l: "\<not> nf_gt ([[Fin 0, Fin 1]] ! 0 ! 0) 0.6" by simp
  have "(0::nat) < 1" "(0::nat) < 2" by simp_all
  with metallic_example n w l
  show "\<exists>n r g b. [[Fin 0, Fin 1]] ! 0 ! 0 = Fin n \<and> 0 \<le> n \<and> n \<le> 1
      \<and> [[(152, 152, 161), (192, 168, 156)]] ! 0 ! 0 = (r, g, b)
      \<and> uint (r :: byte) = py_int (clip (of_int 180 * metallic_brightness (Fin n) + (n - 0.5) * of_int 20) 0 255)
      \<and> uint (g :: byte) = py_int (clip (of_int 180 * metallic_brightness (Fin n) + (n - 0.5) * of_int 20) 0 255)
      \<and> uint (b :: byte) = py_int (clip (of_int 190 * metallic_brightness (Fin n) + (n - 0.5) * of_int 20) 0 255)"
    by (intro metallic_fluid_additive_law [THEN conjunct1, THEN mp] conjI)
next
  have n: "perlin_noise_2d 2 1 0.2 4 (np_noise example_draws) = Inr [[Fin 0, Fin 1]]"
    and w: "perlin_noise_2d 2 1 0.4 2 (np_noise2 example_draws) = Inr [[Fin 0, Fin 1]]"
    unfolding example_draws_grids by (rule perlin_noise_2d_example; simp)+
  have "(0::nat) < 1" "(1::nat) < 2" by simp_all
  with fluid_example n w
  show "\<exists>n wv r g b. [[Fin 0, Fin 1]] ! 0 ! 1 = Fin n \<and> 0 \<le> n \<and> n \<le> 1
      \<and> [[Fin 0, Fin 1]] ! 0 ! 1 = Fin wv \<and> 0 \<le> wv \<and> wv \<le> 1
      \<and> [[(26, 62, 152), (58, 106, 226)]] ! 0 ! 1 = (r, g, b)
      \<and> uint (r :: byte) = py_int (clip (of_int 40 * fluid_brightness False wv n + (n - 0.5) * of_int 20) 0 255)
      \<and> uint (g :: byte) = py_int (clip (of_int 80 * fluid_brightness False wv n + (n - 0.5) * of_int 20) 0 255)
      \<and> uint (b :: byte) = py_int (clip (of_int 180 * fluid_brightness False wv n + (n - 0.5) * of_int 20) 0 255)"
    by (intro metallic_fluid_additive_law [THEN conjunct2, THEN mp] conjI)
qed

section \<open>The batch driver\<close>

lemma main_loop_append:
  "main_loop pre rnd s = (None, s1) \<Longrightarrow> main_loop (pre @ post) rnd s = main_loop post rnd s1"
proof (induction pre rnd s rule: main_loop.induct)
  case (1 rnd s)
  then show ?case by simp
next
  case (2 block_name cfg rest rnd s)
  show ?case
  proof (cases "files s (output_path block_name) \<noteq> None")
    case True
    with 2 show ?thesis by simp
  next
    case False
    with "2.prems" obtain texture where
      t: "generate_texture block_name cfg 32 32 (rnd block_name) = Inr texture"
      by (cases "generate_texture block_name cfg 32 32 (rnd block_name)") auto
    with False "2.IH"(2) "2.prems" show ?thesis by simp
  qed
qed

lemma main_loop_fails_here:
  "files s (output_path block_name) = None \<Longrightarrow>
   generate_texture block_name cfg 32 32 (rnd block_name) = Inl e \<Longrightarrow>
   main_loop ((block_name, cfg) # post) rnd s = (Some e, s)"
  by simp

lemma main_loop_keeps_files:
  "files s p = Some v \<Longrightarrow> files (snd (main_loop catalog rnd s)) p = Some v"
proof (induction catalog rnd s rule: main_loop.induct)
  case (1 rnd s)
  then show ?case by simp
next
  case (2 block_name cfg rest rnd s)
  show ?case
  proof (cases "files s (output_path block_name) \<noteq> None")
    case True
    with 2 show ?thesis by simp
  next
    case False
    show ?thesis
    proof (cases "generate_texture block_name cfg 32 32 (rnd block_name)")
      case (Inl e)
      with False "2.prems" show ?thesis by simp
    next
      case (Inr texture)
      from False "2.prems" have "p \<noteq> output_path block_name" by auto
      with False Inr "2.IH"(2) "2.prems" show ?thesis by simp
    qed
  qed
qed

lemma main_loop_all_skipped:
  "list_all (\<lambda>(block_name, cfg). files s (output_path block_name) \<noteq> None) catalog \<Longrightarrow>
   main_loop catalog rnd s = (None, s\<lparr>skipped := skipped s + length catalog\<rparr>)"
proof (induction catalog rnd s rule: main_loop.induct)
  case (1 rnd s)
  then show ?case by simp
next
  case (2 block_name cfg rest rnd s)
  then show ?case by simp
qed

lemma main_loop_outputs_exist:
  "main_loop catalog rnd s = (None, s') \<Longrightarrow>
   list_all (\<lambda>(block_name, cfg). files s' (output_path block_name) \<noteq> None) catalog"
proof (induction catalog rnd s rule: main_loop.induct)
  case (1 rnd s)
  then show ?case by simp
next
  case (2 block_name cfg rest rnd s)
  show ?case
  proof (cases "files s (output_path block_name) \<noteq> None")
    case True
    then obtain v where v: "files s (output_path block_name) = Some v" by auto
    from True "2.prems" have r: "main_loop rest rnd (s\<lparr>skipped := skipped s + 1\<rparr>) = (None, s')"
      by simp
    from main_loop_keeps_files [of "s\<lparr>skipped := skipped s + 1\<rparr>" "output_path block_name" v rest rnd] v r
    have "files s' (output_path block_name) = Some v" by simp
    with True "2.IH"(1) r show ?thesis by simp
  next
    case False
    with "2.prems" obtain texture where
      t: "generate_texture block_name cfg 32 32 (rnd block_name) = Inr texture"
      by (cases "generate_texture block_name cfg 32 32 (rnd block_name)") auto
    let ?s = "s\<lparr>files := (files s)(output_path block_name \<mapsto> texture), generated := generated s + 1\<rparr>"
    from False t "2.prems" have r: "main_loop rest rnd ?s = (None, s')" by simp
    from main_loop_keeps_files [of ?s "output_path block_name" texture rest rnd] r
    have "files s' (output_path block_name) = Some texture" by simp
    with False t "2.IH"(2) r show ?thesis by simp
  qed
qed

lemma perlin_noise_2d_total:
  "0 < w \<Longrightarrow> 0 < h \<Longrightarrow> sc \<noteq> 0 \<Longrightarrow> \<exists>noise. perlin_noise_2d w h sc oc rnd = Inr noise"
  by (simp add: perlin_noise_2d_def Let_def)

lemma crystalline_pixel_total: "\<exists>p. crystalline_pixel bc sp n rd = Inr p"
  by (cases bc) (simp add: crystalline_pixel_def Let_def rgb_of_def to_channel_def)

lemma generate_crystalline_pattern_total:
  assumes "0 < w" and "0 < h" and "sc \<noteq> 0"
  shows "\<exists>img. generate_crystalline_pattern w h bc v sc sp rnd = Inr img"
proof -
  from perlin_noise_2d_total [OF assms] obtain noise
    where "perlin_noise_2d w h sc 3 (np_noise rnd) = Inr noise" by blast
  moreover have "\<exists>img. render_image w h
      (\<lambda>y x. crystalline_pixel bc sp (noise ! y ! x) (py_random rnd y x)) = Inr img"
    by (rule render_image_total) (rule crystalline_pixel_total)
  ultimately show ?thesis by (simp add: generate_crystalline_pattern_def)
qed

lemma ice_generated: "\<exists>img. generate_texture ''ice'' ice_cfg 32 32 rnd = Inr img"
proof -
  have "generate_texture ''ice'' ice_cfg 32 32 rnd
      = generate_crystalline_pattern 32 32 (200, 220, 255) 15 0.2 False rnd"
    by (simp add: generate_texture_def ice_cfg_def)
  moreover have "\<exists>img. generate_crystalline_pattern 32 32 (200, 220, 255) 15 0.2 False rnd = Inr img"
    by (rule generate_crystalline_pattern_total) simp_all
  ultimately show ?thesis by simp
qed

lemma broken_entry_fails:
  "generate_texture ''iron_block'' (iron_block_cfg\<lparr>ore_color := None\<rparr>) w h rnd = Inl KeyError"
  by (simp add: generate_texture_def iron_block_cfg_def)

text \<open>
  Claim C5, as the code has it. When \<open>generate_texture\<close> raises for an entry that is reached
  and has no output yet, the loop ends there: \<open>main\<close> ends with that exception and the state
  reached before the entry, whatever entries follow, and the script exits with status 1. Textures
  written for earlier entries stay; no later entry is processed.
\<close>

theorem main_aborts_at_failure:
  assumes "main pre rnd fs = (None, s1)"
    and "files s1 (output_path block_name) = None"
    and "generate_texture block_name cfg 32 32 (rnd block_name) = Inl e"
  shows "main (pre @ (block_name, cfg) # post) rnd fs = (Some e, s1)
     \<and> run_script (pre @ (block_name, cfg) # post) rnd fs = (1, files s1)"
proof -
  from assms(1) have "main (pre @ (block_name, cfg) # post) rnd fs
      = main_loop ((block_name, cfg) # post) rnd s1"
    unfolding main_def by (rule main_loop_append)
  also have "\<dots> = (Some e, s1)" using assms(2,3) by (rule main_loop_fails_here)
  finally show ?thesis by (simp add: run_script_def)
qed

text \<open>An existing first entry is skipped, the second one raises \<open>KeyError\<close>.\<close>

theorem main_aborts_at_failure_witness:
  "main ((''ice'', ice_cfg) # broken_catalog) example_rnd [''ice.png'' \<mapsto> []]
      = (Some KeyError, \<lparr>files = [''ice.png'' \<mapsto> []], generated = 0, skipped = 1\<rparr>)
   \<and> run_script ((''ice'', ice_cfg) # broken_catalog) example_rnd [''ice.png'' \<mapsto> []]
      = (1, [''ice.png'' \<mapsto> []])"
proof -
  let ?s1 = "\<lparr>files = [''ice.png'' \<mapsto> []], generated = 0, skipped = 1\<rparr>"
  have a: "main [(''ice'', ice_cfg)] example_rnd [''ice.png'' \<mapsto> []] = (None, ?s1)"
    by (simp add: main_def output_path_def)
  have b: "files ?s1 (output_path ''iron_block'') = None"
    by (simp add: output_path_def)
  have c: "generate_texture ''iron_block'' (iron_block_cfg\<lparr>ore_color := None\<rparr>) 32 32
      (example_rnd ''iron_block'') = Inl KeyError"
    by (rule broken_entry_fails)
  from main_aborts_at_failure [OF a b c, of "[(''ice'', ice_cfg)]"]
  show ?thesis by (simp add: broken_catalog_def)
qed

text \<open>
  Claim C5 fails: with \<open>broken_catalog\<close> and an empty directory the first entry raises
  \<open>KeyError\<close>, the run ends with exit status 1 and no file, although the remaining entry
  (\<open>ice\<close>) is generated without error when the catalog starts with it.
\<close>

theorem batch_aborted_counterexample:
  "main broken_catalog example_rnd Map.empty
      = (Some KeyError, \<lparr>files = Map.empty, generated = 0, skipped = 0\<rparr>)
   \<and> run_script broken_catalog example_rnd Map.empty = (1, Map.empty)
   \<and> fst (main (tl broken_catalog) example_rnd Map.empty) = None
   \<and> generated (snd (main (tl broken_catalog) example_rnd Map.empty)) = 1"
proof -
  have m: "main broken_catalog example_rnd Map.empty
      = (Some KeyError, \<lparr>files = Map.empty, generated = 0, skipped = 0\<rparr>)"
    by (simp add: main_def broken_catalog_def broken_entry_fails)
  from ice_generated [of "example_rnd ''ice''"] obtain img
    where "generate_texture ''ice'' ice_cfg 32 32 (example_rnd ''ice'') = Inr img" by blast
  then have "main (tl broken_catalog) example_rnd Map.empty
      = (None, \<lparr>files = [output_path ''ice'' \<mapsto> img], generated = 1, skipped = 0\<rparr>)"
    by (simp add: main_def broken_catalog_def)
  with m show ?thesis by (simp add: run_script_def)
qed

text \<open>
  Claim C9. For any catalog, draws and directory, a file that exists before a run is still
  there with the same content after it, whether the run ends normally or not; and when a run
  has ended normally, a second run over the directory it left, with any draws, writes nothing
  (\<open>generated = 0\<close>), skips every entry, leaves the files as they are and exits with status 0.
\<close>

theorem main_idempotent:
  "(fs p = Some v \<longrightarrow> files (snd (main catalog rnd fs)) p = Some v)
   \<and> (main catalog rnd fs = (None, s) \<longrightarrow>
        main catalog rnd' (files s)
          = (None, \<lparr>files = files s, generated = 0, skipped = length catalog\<rparr>)
        \<and> run_script catalog rnd' (files s) = (0, files s))"
proof (intro conjI impI)
  assume "fs p = Some v"
  then show "files (snd (main catalog rnd fs)) p = Some v"
    unfolding main_def by (intro main_loop_keeps_files) simp
next
  assume "main catalog rnd fs = (None, s)"
  then have "list_all (\<lambda>(block_name, cfg). files s (output_path block_name) \<noteq> None) catalog"
    unfolding main_def by (rule main_loop_outputs_exist)
  then have "list_all (\<lambda>(block_name, cfg).
      files \<lparr>files = files s, generated = 0, skipped = 0\<rparr> (output_path block_name) \<noteq> None) catalog"
    by simp
  from main_loop_all_skipped [OF this, of rnd']
  show m: "main catalog rnd' (files s)
      = (None, \<lparr>files = files s, generated = 0, skipped = length catalog\<rparr>)"
    by (simp add: main_def)
  then show "run_script catalog rnd' (files s) = (0, files s)"
    by (simp add: run_script_def)
qed

text \<open>
  An existing \<open>ice.png\<close> survives a run; and a first run that generates \<open>ice.png\<close> is
  followed by a second run that writes nothing.
\<close>

theorem main_idempotent_witness:
  "files (snd (main [(''ice'', ice_cfg), (''coal'', coal_cfg)] example_rnd [''ice.png'' \<mapsto> []]))
      ''ice.png'' = Some []
   \<and> (\<exists>s. main [(''ice'', ice_cfg)] example_rnd Map.empty = (None, s)
        \<and> generated s = 1
        \<and> main [(''ice'', ice_cfg)] example_rnd (files s)
            = (None, \<lparr>files = files s, generated = 0, skipped = 1\<rparr>)
        \<and> run_script [(''ice'', ice_cfg)] example_rnd (files s) = (0, files s))"
proof
  have "[''ice.png'' \<mapsto> ([] :: image)] ''ice.png'' = Some []" by simp
  with main_idempotent [of "[''ice.png'' \<mapsto> []]" "''ice.png''" "[]"
      "[(''ice'', ice_cfg), (''coal'', coal_cfg)]" example_rnd]
  show "files (snd (main [(''ice'', ice_cfg), (''coal'', coal_cfg)] example_rnd
      [''ice.png'' \<mapsto> []])) ''ice.png'' = Some []"
    by blast
next
  from ice_generated [of "example_rnd ''ice''"] obtain img
    where "generate_texture ''ice'' ice_cfg 32 32 (example_rnd ''ice'') = Inr img" by blast
  then have m: "main [(''ice'', ice_cfg)] example_rnd Map.empty
      = (None, \<lparr>files = [output_path ''ice'' \<mapsto> img], generated = 1, skipped = 0\<rparr>)"
    by (simp add: main_def)
  let ?s = "\<lparr>files = [output_path ''ice'' \<mapsto> img], generated = 1, skipped = 0\<rparr>"
  from main_idempotent [of Map.empty _ _ "[(''ice'', ice_cfg)]" example_rnd ?s example_rnd] m
  have "main [(''ice'', ice_cfg)] example_rnd (files ?s)
            = (None, \<lparr>files = files ?s, generated = 0, skipped = 1\<rparr>)
        \<and> run_script [(''ice'', ice_cfg)] example_rnd (files ?s) = (0, files ?s)"
    by simp
  with m show "\<exists>s. main [(''ice'', ice_cfg)] example_rnd Map.empty = (None, s)
        \<and> generated s = 1
        \<and> main [(''ice'', ice_cfg)] example_rnd (files s)
            = (None, \<lparr>files = files s, generated = 0, skipped = 1\<rparr>)
        \<and> run_script [(''ice'', ice_cfg)] example_rnd (files s) = (0, files s)"
    by (intro exI [of _ ?s]) simp
qed

section \<open>The flat noise field\<close>

text \<open>
  When every draw is 1/2, every gradient is \<open>0.5 * 2 - 1 = 0\<close>, every interpolation is
  \<open>0 * (1 - f) + 0 * f = 0\<close> and the field is zero at every pixel.
\<close>

lemma interpolate_zeros: "interpolate 0 0 x = 0"
  by (simp add: interpolate_def Let_def)

lemma octave_sample_half:
  "octave_sample w h sc (\<lambda>octave r c. 1 / 2) octave y x = 0"
  by (simp add: octave_sample_def Let_def interpolate_zeros)

lemma raw_noise_half: "raw_noise w h sc oc (\<lambda>octave r c. 1 / 2) y x = 0"
proof -
  have "foldl (\<lambda>acc octave. acc + octave_sample w h sc (\<lambda>octave r c. 1 / 2) octave y x) a os = a"
    for a os
    by (induction os arbitrary: a) (simp_all add: octave_sample_half)
  then show ?thesis by (simp only: raw_noise_def)
qed

lemma map_const_upt: "map (\<lambda>i. c) [0..<n] = replicate n c"
  by (induction n) (simp_all add: replicate_append_same)

lemma set_concat_replicate:
  "0 < w \<Longrightarrow> 0 < h \<Longrightarrow> set (concat (replicate h (replicate w c))) = {c}"
  by (cases h; cases w) auto

lemma perlin_noise_2d_half:
  assumes "0 < w" and "0 < h" and "sc \<noteq> 0"
  shows "perlin_noise_2d w h sc oc (\<lambda>octave r c. 1 / 2) = Inr (replicate h (replicate w NaN))"
proof -
  have f: "map (\<lambda>y. map (\<lambda>x. raw_noise w h sc oc (\<lambda>octave r c. 1 / 2) y x) [0..<w]) [0..<h]
      = replicate h (replicate w 0)"
    by (simp only: raw_noise_half map_const_upt)
  show ?thesis
    unfolding perlin_noise_2d_def Let_def f set_concat_replicate [OF assms(1,2)]
    using assms by (simp add: np_div_def)
qed

lemma render_image_first_fails:
  assumes "0 < w" and "0 < h" and "px 0 0 = Inl e"
  shows "render_image w h px = Inl e"
proof -
  from assms(1) have "[0..<w] = 0 # [1..<w]" by (simp add: upt_rec)
  moreover from assms(2) have "[0..<h] = 0 # [1..<h]" by (simp add: upt_rec)
  ultimately show ?thesis using assms(3) by (simp add: render_image_def)
qed

lemma organic_pixel_nan: "organic_pixel bc v NaN = Inl ValueError"
  by (cases bc) (simp add: organic_pixel_def to_channel_def rgb_of_def)

text \<open>
  Claim C4 fails on the code, which has no special case for a flat field: the normalisation
  divides zero by zero. A 1 by 1 field is always flat, and so is the 32 by 32 field when every
  draw is 1/2: \<open>perlin_noise_2d\<close> returns NaN at every pixel, and the organic compositor
  then raises \<open>ValueError\<close> on \<open>int(nan)\<close>.
\<close>

theorem perlin_noise_2d_degenerate:
  "perlin_noise_2d 1 1 scale octaves grid =
     (if 0 < octaves \<and> scale = 0 then Inl ZeroDivisionError else Inr [[NaN]])
   \<and> generate_organic_pattern 1 1 bc v 0.3 rnd = Inl ValueError
   \<and> perlin_noise_2d 32 32 0.3 4 (\<lambda>octave r c. 1 / 2) = Inr (replicate 32 (replicate 32 NaN))
   \<and> generate_organic_pattern 32 32 bc v 0.3 (rnd\<lparr>np_noise := (\<lambda>octave r c. 1 / 2)\<rparr>)
       = Inl ValueError"
proof -
  have one: "perlin_noise_2d 1 1 scale octaves grid =
     (if 0 < octaves \<and> scale = 0 then Inl ZeroDivisionError else Inr [[NaN]])" for scale octaves grid
    by (simp add: perlin_noise_2d_def Let_def np_div_def)
  have flat: "perlin_noise_2d 32 32 0.3 4 (\<lambda>octave r c. 1 / 2)
      = Inr (replicate 32 (replicate 32 NaN))"
    by (rule perlin_noise_2d_half) simp_all
  have "perlin_noise_2d 1 1 0.3 4 (np_noise rnd) = Inr [[NaN]]"
    by (simp add: one del: One_nat_def)
  then have "generate_organic_pattern 1 1 bc v 0.3 rnd
      = render_image 1 1 (\<lambda>y x. organic_pixel bc v ([[NaN]] ! y ! x))"
    by (simp only: generate_organic_pattern_def sum.case)
  also have "\<dots> = Inl ValueError"
    by (rule render_image_first_fails) (simp_all add: organic_pixel_nan)
  finally have o1: "generate_organic_pattern 1 1 bc v 0.3 rnd = Inl ValueError" .
  have "np_noise (rnd\<lparr>np_noise := (\<lambda>octave r c. 1 / 2)\<rparr>) = (\<lambda>octave r c. 1 / 2)" by simp
  then have "generate_organic_pattern 32 32 bc v 0.3 (rnd\<lparr>np_noise := (\<lambda>octave r c. 1 / 2)\<rparr>)
      = render_image 32 32 (\<lambda>y x. organic_pixel bc v (replicate 32 (replicate 32 NaN) ! y ! x))"
    by (simp only: generate_organic_pattern_def flat sum.case)
  also have "\<dots> = Inl ValueError"
    by (rule render_image_first_fails) (simp_all add: organic_pixel_nan)
  finally show ?thesis using one flat o1 by simp
qed

end
